theory Spec2Isabelle
  imports Complex_Main
begin

section \<open>Data model\<close>

text \<open>
  A \<^verbatim>\<open>gin.H\<close> document and every decoded JSON value (\<^verbatim>\<open>interface{}\<close>) is a
  tree. An object is kept as the list of its entries; a lookup \<^verbatim>\<open>m[k]\<close> is
  \<open>map_of\<close>. The numbers the translator writes itself (\<^verbatim>\<open>-1.0\<close>, \<^verbatim>\<open>1.0\<close>,
  \<^verbatim>\<open>math.Pow(10, float64(i))\<close> for \<open>i \<le> 9\<close>) are integers far below \<open>2^53\<close>, which
  a float64 holds exactly; every other number is passed through untouched. A number is
  therefore a \<open>real\<close>.
\<close>

datatype json =
    JNull
  | JBool bool
  | JNum real
  | JStr string
  | JArr "json list"
  | JObj "(string \<times> json) list"

text \<open>The process-wide \<^verbatim>\<open>aggregationFieldOverrides\<close> map.\<close>

type_synonym overrides = "string \<rightharpoonup> string"

section \<open>FieldOverrideCache (elastic_helpers.go)\<close>

definition resolveAggregationField :: "overrides \<Rightarrow> string \<Rightarrow> string" where
  "resolveAggregationField aggregationFieldOverrides key =
     (case aggregationFieldOverrides key of
        Some override \<Rightarrow> override
      | None \<Rightarrow> key)"

definition setAggregationFieldOverride :: "overrides \<Rightarrow> string \<Rightarrow> string \<Rightarrow> overrides" where
  "setAggregationFieldOverride aggregationFieldOverrides key override =
     (if aggregationFieldOverrides key = Some override
      then aggregationFieldOverrides
      else aggregationFieldOverrides(key \<mapsto> override))"

section \<open>The Go string functions the error recovery uses\<close>

text \<open>
  A Go string is its UTF-8 bytes, a \<open>string\<close> here. \<^verbatim>\<open>strings.HasPrefix\<close>,
  \<^verbatim>\<open>strings.HasSuffix\<close>, \<^verbatim>\<open>strings.Contains\<close> and \<^verbatim>\<open>strings.TrimSuffix\<close> work on
  the bytes.
\<close>

definition hasPrefix :: "string \<Rightarrow> string \<Rightarrow> bool" where
  "hasPrefix s prefix = (take (length prefix) s = prefix)"

definition hasSuffix :: "string \<Rightarrow> string \<Rightarrow> bool" where
  "hasSuffix s suffix =
     (length suffix \<le> length s \<and> drop (length s - length suffix) s = suffix)"

fun contains :: "string \<Rightarrow> string \<Rightarrow> bool" where
  "contains [] substr = (substr = [])"
| "contains (c # cs) substr = (hasPrefix (c # cs) substr \<or> contains cs substr)"

definition trimSuffix :: "string \<Rightarrow> string \<Rightarrow> string" where
  "trimSuffix s suffix =
     (if hasSuffix s suffix then take (length s - length suffix) s else s)"

text \<open>
  \<^verbatim>\<open>strings.TrimSpace\<close> removes leading and trailing white space as
  \<^verbatim>\<open>unicode.IsSpace\<close> defines it: the six ASCII characters, U+0085, U+00A0 and the
  characters of category Z with property White_Space, listed here by their UTF-8
  encodings.
\<close>

definition spaceRunes :: "string list" where
  "spaceRunes =
     [[CHR 0x09], [CHR 0x0A], [CHR 0x0B], [CHR 0x0C], [CHR 0x0D], [CHR 0x20],
      [CHR 0xC2, CHR 0x85], [CHR 0xC2, CHR 0xA0],
      [CHR 0xE1, CHR 0x9A, CHR 0x80],
      [CHR 0xE2, CHR 0x80, CHR 0x80], [CHR 0xE2, CHR 0x80, CHR 0x81],
      [CHR 0xE2, CHR 0x80, CHR 0x82], [CHR 0xE2, CHR 0x80, CHR 0x83],
      [CHR 0xE2, CHR 0x80, CHR 0x84], [CHR 0xE2, CHR 0x80, CHR 0x85],
      [CHR 0xE2, CHR 0x80, CHR 0x86], [CHR 0xE2, CHR 0x80, CHR 0x87],
      [CHR 0xE2, CHR 0x80, CHR 0x88], [CHR 0xE2, CHR 0x80, CHR 0x89],
      [CHR 0xE2, CHR 0x80, CHR 0x8A],
      [CHR 0xE2, CHR 0x80, CHR 0xA8], [CHR 0xE2, CHR 0x80, CHR 0xA9],
      [CHR 0xE2, CHR 0x80, CHR 0xAF], [CHR 0xE2, CHR 0x81, CHR 0x9F],
      [CHR 0xE3, CHR 0x80, CHR 0x80]]"

definition runeLen :: "string list \<Rightarrow> string \<Rightarrow> nat" where
  "runeLen runes s =
     (case List.find (hasPrefix s) runes of None \<Rightarrow> 0 | Some r \<Rightarrow> length r)"

function trimLeftRunes :: "string list \<Rightarrow> string \<Rightarrow> string" where
  "trimLeftRunes runes s =
     (if runeLen runes s = 0 then s else trimLeftRunes runes (drop (runeLen runes s) s))"
  by pat_completeness auto
termination
proof (relation "measure (\<lambda>(runes, s). length s)")
  fix runes :: "string list" and s :: string
  assume "runeLen runes s \<noteq> 0"
  then obtain r where "List.find (hasPrefix s) runes = Some r" and "r \<noteq> []"
    by (auto simp: runeLen_def split: option.splits)
  then have "take (length r) s = r"
    by (auto simp: find_Some_iff hasPrefix_def)
  with \<open>r \<noteq> []\<close> have "s \<noteq> []"
    by auto
  with \<open>runeLen runes s \<noteq> 0\<close>
  show "((runes, drop (runeLen runes s) s), (runes, s)) \<in> measure (\<lambda>(runes, s). length s)"
    by simp
qed simp

declare trimLeftRunes.simps [simp del]

definition trimSpace :: "string \<Rightarrow> string" where
  "trimSpace s =
     rev (trimLeftRunes (map rev spaceRunes) (rev (trimLeftRunes spaceRunes s)))"

text \<open>
  \<^verbatim>\<open>fielddataRegex = \[(?P<field>[^\[\]]+)\]\<close> with
  \<^verbatim>\<open>FindAllStringSubmatch(reason, -1)\<close>: the successive leftmost matches, each as the
  pair of the whole match and the \<^verbatim>\<open>field\<close> group. A match is an opening bracket, a
  non-empty run of characters that are not brackets, and a closing bracket; the scan
  keeps the run read since the last opening bracket (\<open>None\<close> outside a candidate), in
  reverse.
\<close>

fun fielddataScan :: "string option \<Rightarrow> string \<Rightarrow> string list list" where
  "fielddataScan run [] = []"
| "fielddataScan run (c # cs) =
     (if c = CHR ''['' then fielddataScan (Some []) cs
      else if c = CHR '']'' then
        (case run of
           Some (x # xs) \<Rightarrow>
             [''['' @ rev (x # xs) @ '']'', rev (x # xs)] # fielddataScan None cs
         | _ \<Rightarrow> fielddataScan None cs)
      else fielddataScan (map_option ((#) c) run) cs)"

definition findAllStringSubmatch :: "string \<Rightarrow> string list list" where
  "findAllStringSubmatch reason = fielddataScan None reason"

section \<open>Backend responses\<close>

record RootCause =
  Type :: string
  Reason :: string
  Index :: string

record SearchErrorResponse =
  Error :: "string \<rightharpoonup> RootCause list"
  Status :: int

record Hit =
  Explanation :: "(string \<times> json) list"
  Id :: string
  Score :: real
  Source :: "(string \<times> json) list"
  Highlight :: "(string \<times> string list) list"

text \<open>\<^verbatim>\<open>HitsField.Hits\<close> is a slice: \<open>None\<close> is Go's \<^verbatim>\<open>nil\<close>.\<close>

record HitsField =
  Total :: "(string \<times> json) list"
  MaxScore :: real
  Hits :: "Hit list option"

text \<open>
  \<^verbatim>\<open>Aggregations\<close> is a Go map; the list holds its entries in the order a
  \<^verbatim>\<open>range\<close> over it visits them, which the runtime chooses.
\<close>

record SearchResponse =
  Took :: int
  TimedOut :: bool
  Shards :: "(string \<times> json) list"
  HitsOf :: HitsField
  Aggregations :: "(string \<times> json) list"

definition zeroSearchResponse :: SearchResponse where
  "zeroSearchResponse =
     \<lparr>Took = 0, TimedOut = False, Shards = [],
      HitsOf = \<lparr>Total = [], MaxScore = 0, Hits = None\<rparr>, Aggregations = []\<rparr>"

section \<open>Error recovery (elastic_helpers.go)\<close>

text \<open>
  \<^verbatim>\<open>json.Unmarshal\<close> belongs to the standard library. Decoding a body into a
  \<^verbatim>\<open>SearchErrorResponse\<close> is the parameter \<open>unmarshalError\<close> (\<open>None\<close> when it
  returns an error); decoding into a \<^verbatim>\<open>SearchResponse\<close>, whose error the code
  ignores, is the parameter \<open>unmarshalResponse\<close>.
\<close>

text \<open>The loop over the matches of one reason.\<close>

fun overridesFromMatches :: "overrides \<Rightarrow> bool \<Rightarrow> string list list \<Rightarrow> overrides \<times> bool" where
  "overridesFromMatches ov updated [] = (ov, updated)"
| "overridesFromMatches ov updated (match # matches) =
     (if length match < 2 then overridesFromMatches ov updated matches
      else
        let field = trimSpace (match ! 1) in
        if field = [] \<or> contains field '' '' then overridesFromMatches ov updated matches
        else
          let field = trimSuffix field ''.keyword'';
              override = field @ ''.keyword''
          in if ov field \<noteq> None then overridesFromMatches ov True matches
             else overridesFromMatches (setAggregationFieldOverride ov field override) True matches)"

text \<open>The loop over the root causes.\<close>

fun overridesFromCauses :: "overrides \<Rightarrow> bool \<Rightarrow> RootCause list \<Rightarrow> overrides \<times> bool" where
  "overridesFromCauses ov updated [] = (ov, updated)"
| "overridesFromCauses ov updated (cause # causes) =
     (if \<not> (contains (Reason cause) ''Text fields are not optimised'' \<or>
             contains (Reason cause) ''Fielddata is disabled'')
      then overridesFromCauses ov updated causes
      else
        (case overridesFromMatches ov updated (findAllStringSubmatch (Reason cause)) of
           (ov', updated') \<Rightarrow> overridesFromCauses ov' updated' causes))"

definition updateAggregationOverridesFromError ::
  "(string \<Rightarrow> SearchErrorResponse option) \<Rightarrow> overrides \<Rightarrow> string \<Rightarrow> overrides \<times> bool" where
  "updateAggregationOverridesFromError unmarshalError ov body =
     (if length body = 0 then (ov, False)
      else
        (case unmarshalError body of
           None \<Rightarrow> (ov, False)
         | Some elasticError \<Rightarrow>
             (case Error elasticError ''root_cause'' of
                None \<Rightarrow> (ov, False)
              | Some rootCauses \<Rightarrow>
                  if length rootCauses = 0 then (ov, False)
                  else overridesFromCauses ov False rootCauses)))"

section \<open>The backend\<close>

text \<open>
  What \<^verbatim>\<open>ElasticClient.Search\<close> hands back: an error, a nil response, or a response
  with its status code, the bytes \<^verbatim>\<open>io.ReadAll\<close> read from its body and whether
  \<^verbatim>\<open>io.ReadAll\<close> returned an error.
\<close>

datatype transport =
    TransportError
  | NilResponse
  | HttpResponse (StatusCode: nat) (Body: string) (ReadFailed: bool)

text \<open>
  The search engine is outside the program. For every index it is a script of the
  replies it will give to the successive requests on that index, each reply a function
  of the query document it is sent, and a log of the requests it has received, so that
  the number of backend attempts is the growth of the log. An index with no reply
  left is unreachable.
\<close>

record backend =
  replies :: "string \<Rightarrow> (json \<Rightarrow> transport) list"
  requests :: "(string \<times> json) list"

definition ElasticClient_Search :: "backend \<Rightarrow> string \<Rightarrow> json \<Rightarrow> transport \<times> backend" where
  "ElasticClient_Search be index query =
     (case replies be index of
        [] \<Rightarrow> (TransportError, be\<lparr>requests := requests be @ [(index, query)]\<rparr>)
      | r # rs \<Rightarrow>
          (r query, be\<lparr>replies := (replies be)(index := rs),
                        requests := requests be @ [(index, query)]\<rparr>))"

section \<open>RetryingExecutor (elastic_helpers.go)\<close>

text \<open>
  \<^verbatim>\<open>executeElasticQuery\<close>. The query document is built from JSON values only, so
  encoding it cannot fail and that branch is not reachable.
\<close>

definition executeElasticQuery ::
  "(string \<Rightarrow> SearchResponse) \<Rightarrow> backend \<Rightarrow> string \<Rightarrow> json
     \<Rightarrow> (SearchResponse \<times> string) \<times> backend" where
  "executeElasticQuery unmarshalResponse be index elasticQuery =
     (case ElasticClient_Search be index elasticQuery of
        (TransportError, be') \<Rightarrow> ((zeroSearchResponse, []), be')
      | (NilResponse, be') \<Rightarrow> ((zeroSearchResponse, []), be')
      | (HttpResponse status body readFailed, be') \<Rightarrow>
          if readFailed then ((zeroSearchResponse, body), be')
          else ((unmarshalResponse body, body), be'))"

text \<open>
  The run-time panics of the translators: a failed type assertion without comma-ok
  (\<^verbatim>\<open>terms.([]interface{})\<close>, \<^verbatim>\<open>terms.(map[string]interface{})\<close>, \<^verbatim>\<open>.(bool)\<close>) and an
  index out of range. Nothing in the program recovers from a panic.
\<close>

datatype panic = InterfaceConversion | IndexOutOfRange

text \<open>
  \<^verbatim>\<open>executeSearchWithRetry\<close>: the loop \<^verbatim>\<open>for attempt := 0; attempt < 2; attempt++\<close>.
  \<open>buildQuery\<close> is a closure over a translator: it reads the override cache each time
  it is called, and a panic inside it leaves the executor at once. The state is the
  cache and the backend; \<open>lastResult\<close> is \<^verbatim>\<open>(lastResp, lastBody)\<close>.
\<close>

function executeSearchLoop ::
  "(string \<Rightarrow> SearchErrorResponse option) \<Rightarrow> (string \<Rightarrow> SearchResponse) \<Rightarrow> string
     \<Rightarrow> (overrides \<Rightarrow> panic + json) \<Rightarrow> nat \<Rightarrow> SearchResponse \<times> string \<Rightarrow> overrides \<times> backend
     \<Rightarrow> panic + ((SearchResponse \<times> string) \<times> overrides \<times> backend)" where
  "executeSearchLoop unmarshalError unmarshalResponse index buildQuery attempt lastResult (ov, be) =
     (if attempt < 2 then
        (case buildQuery ov of
           Inl p \<Rightarrow> Inl p
         | Inr elasticQuery \<Rightarrow>
             (case executeElasticQuery unmarshalResponse be index elasticQuery of
                ((resp, body), be') \<Rightarrow>
                  if Hits (HitsOf resp) \<noteq> None \<or> length body = 0 then Inr ((resp, body), ov, be')
                  else
                    (case updateAggregationOverridesFromError unmarshalError ov body of
                       (ov', updated) \<Rightarrow>
                         if \<not> updated then Inr ((resp, body), ov', be')
                         else executeSearchLoop unmarshalError unmarshalResponse index buildQuery
                                (attempt + 1) (resp, body) (ov', be'))))
      else Inr (lastResult, ov, be))"
  by pat_completeness auto
termination
  by (relation "measure (\<lambda>(ue, ur, index, bq, attempt, lastResult, st). 2 - attempt)") auto

declare executeSearchLoop.simps [simp del]

definition executeSearchWithRetry ::
  "(string \<Rightarrow> SearchErrorResponse option) \<Rightarrow> (string \<Rightarrow> SearchResponse) \<Rightarrow> string
     \<Rightarrow> (overrides \<Rightarrow> panic + json) \<Rightarrow> overrides \<times> backend
     \<Rightarrow> panic + ((SearchResponse \<times> string) \<times> overrides \<times> backend)" where
  "executeSearchWithRetry unmarshalError unmarshalResponse index buildQuery st =
     executeSearchLoop unmarshalError unmarshalResponse index buildQuery 0
       (zeroSearchResponse, []) st"

section \<open>Numeric-range buckets\<close>

text \<open>
  \<^verbatim>\<open>populationRanges\<close>: one literal bucket, then the loop
  \<^verbatim>\<open>for i := 0; i < 9; i++\<close> appending \<^verbatim>\<open>{"from": 10^i, "to": 10^(i+1)}\<close>.
\<close>

function populationRangesLoop :: "nat \<Rightarrow> json list \<Rightarrow> json list" where
  "populationRangesLoop i ranges =
     (if i < 9
      then populationRangesLoop (i + 1)
             (ranges @ [JObj [(''from'', JNum (10 ^ i)), (''to'', JNum (10 ^ (i + 1)))]])
      else ranges)"
  by pat_completeness auto
termination
  by (relation "measure (\<lambda>(i, ranges). 9 - i)") auto

declare populationRangesLoop.simps [simp del]

definition populationRanges :: "json list" where
  "populationRanges =
     populationRangesLoop 0
       [JObj [(''from'', JNum (- 1)), (''to'', JNum 1), (''key'', JStr ''Unreported'')]]"

section \<open>FilterListingService\<close>

text \<open>The comma-ok assertion \<^verbatim>\<open>v.(string)\<close> on a map lookup: the zero value when it fails.\<close>

definition asString :: "json option \<Rightarrow> string \<times> bool" where
  "asString v = (case v of Some (JStr str) \<Rightarrow> (str, True) | _ \<Rightarrow> ([], False))"

text \<open>
  \<^verbatim>\<open>strings.ToLower\<close>, which \<^verbatim>\<open>ListFilters\<close> applies to the two literals
  \<^verbatim>\<open>"dataUseRegister"\<close> and \<^verbatim>\<open>"dataProvider"\<close> only: the mapping of the ASCII letters.
\<close>

definition toLower :: "string \<Rightarrow> string" where
  "toLower str =
     map (\<lambda>c. case map_of (zip ''ABCDEFGHIJKLMNOPQRSTUVWXYZ'' ''abcdefghijklmnopqrstuvwxyz'') c of
                 Some l \<Rightarrow> l
               | None \<Rightarrow> c) str"









section \<open>QueryTranslator: filter clauses\<close>

text \<open>
  \<^verbatim>\<open>Query\<close>. \<^verbatim>\<open>Filters\<close> maps an entity type to its bucket, a Go map from field key
  to filter value; the bucket is the list of its entries in the order the
  \<^verbatim>\<open>range\<close> loop of the translator visits them.
\<close>

record Query =
  QueryString :: string
  Filters :: "string \<rightharpoonup> (string \<times> json) list"
  AggregationsOf :: "(string \<times> json) list list"
  IDs :: "string list"

text \<open>\<^verbatim>\<open>query.Filters[entity]\<close>: a missing bucket is a nil map, which has no entries.\<close>

definition filterBucket :: "Query \<Rightarrow> string \<Rightarrow> (string \<times> json) list" where
  "filterBucket query entity = (case Filters query entity of None \<Rightarrow> [] | Some bucket \<Rightarrow> bucket)"

text \<open>
  The inner loop \<^verbatim>\<open>for _, t := range terms.([]interface{})\<close> appending one
  \<^verbatim>\<open>term\<close> clause per value, and the \<^verbatim>\<open>bool/should\<close> clause built from its result.
\<close>

fun termFilters :: "string \<Rightarrow> json list \<Rightarrow> json list \<Rightarrow> json list" where
  "termFilters key filters [] = filters"
| "termFilters key filters (t # ts) =
     termFilters key (filters @ [JObj [(''term'', JObj [(key, t)])]]) ts"

definition termsClause :: "string \<Rightarrow> json \<Rightarrow> panic + json" where
  "termsClause key terms =
     (case terms of
        JArr ts \<Rightarrow> Inr (JObj [(''bool'', JObj [(''should'', JArr (termFilters key [] ts))])])
      | _ \<Rightarrow> Inl InterfaceConversion)"

text \<open>
  The filter loop shared, word for word, by \<^verbatim>\<open>toolsElasticConfig\<close>,
  \<^verbatim>\<open>collectionsElasticConfig\<close>, \<^verbatim>\<open>dataUseElasticConfig\<close>,
  \<^verbatim>\<open>dataProviderElasticConfig\<close> and \<^verbatim>\<open>dataCustodianNetworkElasticConfig\<close>: every
  key is a list of terms. A panic leaves the translator at once.
\<close>

fun termsMustFilters :: "json list \<Rightarrow> (string \<times> json) list \<Rightarrow> panic + json list" where
  "termsMustFilters mustFilters [] = Inr mustFilters"
| "termsMustFilters mustFilters ((key, terms) # rest) =
     (case termsClause key terms of
        Inl p \<Rightarrow> Inl p
      | Inr clause \<Rightarrow> termsMustFilters (mustFilters @ [clause]) rest)"

definition toolsMustFilters :: "Query \<Rightarrow> panic + json list" where
  "toolsMustFilters query = termsMustFilters [] (filterBucket query ''tool'')"

definition collectionsMustFilters :: "Query \<Rightarrow> panic + json list" where
  "collectionsMustFilters query = termsMustFilters [] (filterBucket query ''collection'')"

definition dataUseMustFilters :: "Query \<Rightarrow> panic + json list" where
  "dataUseMustFilters query = termsMustFilters [] (filterBucket query ''dataUseRegister'')"

definition dataProviderMustFilters :: "Query \<Rightarrow> panic + json list" where
  "dataProviderMustFilters query = termsMustFilters [] (filterBucket query ''dataProvider'')"

definition dataCustodianNetworkMustFilters :: "Query \<Rightarrow> panic + json list" where
  "dataCustodianNetworkMustFilters query =
     termsMustFilters [] (filterBucket query ''datacustodiannetwork'')"

text \<open>
  The filter loop of \<^verbatim>\<open>datasetElasticConfig\<close>: \<^verbatim>\<open>dateRange\<close> reads elements 1 and 0
  of a list, \<^verbatim>\<open>populationSize\<close> reads \<^verbatim>\<open>includeUnreported\<close>, \<^verbatim>\<open>from\<close> and \<^verbatim>\<open>to\<close>
  of an object (a missing \<^verbatim>\<open>from\<close> or \<^verbatim>\<open>to\<close> is nil), every other key is a list of terms.
\<close>

definition mapIndex :: "(string \<times> json) list \<Rightarrow> string \<Rightarrow> json" where
  "mapIndex m k = (case map_of m k of None \<Rightarrow> JNull | Some v \<Rightarrow> v)"

definition datasetClause :: "string \<Rightarrow> json \<Rightarrow> panic + json" where
  "datasetClause key terms =
     (if key = ''dateRange'' then
        (case terms of
           JArr ts \<Rightarrow>
             if length ts < 2 then Inl IndexOutOfRange
             else Inr (JObj [(''bool'', JObj [(''must'', JArr
                    [JObj [(''range'', JObj [(''startDate'', JObj [(''lte'', ts ! 1)])])],
                     JObj [(''range'', JObj [(''endDate'', JObj [(''gte'', ts ! 0)])])]])])])
         | _ \<Rightarrow> Inl InterfaceConversion)
      else if key = ''populationSize'' then
        (case terms of
           JObj m \<Rightarrow>
             (case map_of m ''includeUnreported'' of
                Some (JBool includeNull) \<Rightarrow>
                  (let from = mapIndex m ''from''; to = mapIndex m ''to'' in
                   if includeNull then
                     Inr (JObj [(''bool'', JObj [(''should'', JArr
                       [JObj [(''range'', JObj [(key, JObj [(''gte'', from), (''lte'', to)])])],
                        JObj [(''term'', JObj [(''populationSize'', JNum (- 1))])]])])])
                   else
                     Inr (JObj [(''bool'', JObj [(''must'', JArr
                       [JObj [(''range'', JObj [(key, JObj [(''gte'', from), (''lte'', to)])])]])])]))
              | _ \<Rightarrow> Inl InterfaceConversion)
         | _ \<Rightarrow> Inl InterfaceConversion)
      else termsClause key terms)"

fun datasetFilterLoop :: "json list \<Rightarrow> (string \<times> json) list \<Rightarrow> panic + json list" where
  "datasetFilterLoop mustFilters [] = Inr mustFilters"
| "datasetFilterLoop mustFilters ((key, terms) # rest) =
     (case datasetClause key terms of
        Inl p \<Rightarrow> Inl p
      | Inr clause \<Rightarrow> datasetFilterLoop (mustFilters @ [clause]) rest)"

definition datasetMustFilters :: "Query \<Rightarrow> panic + json list" where
  "datasetMustFilters query = datasetFilterLoop [] (filterBucket query ''dataset'')"

text \<open>
  The filter loop of \<^verbatim>\<open>publicationElasticConfig\<close>, over the bucket \<^verbatim>\<open>"paper"\<close>:
  \<^verbatim>\<open>publicationDate\<close> reads elements 0 and 1 of a list, every other key is a list of terms.
\<close>

definition publicationClause :: "string \<Rightarrow> json \<Rightarrow> panic + json" where
  "publicationClause key terms =
     (if key = ''publicationDate'' then
        (case terms of
           JArr ts \<Rightarrow>
             if length ts < 2 then Inl IndexOutOfRange
             else Inr (JObj [(''bool'', JObj [(''must'', JArr
                    [JObj [(''range'', JObj [(''publicationDate'', JObj [(''gte'', ts ! 0)])])],
                     JObj [(''range'', JObj [(''publicationDate'', JObj [(''lte'', ts ! 1)])])]])])])
         | _ \<Rightarrow> Inl InterfaceConversion)
      else termsClause key terms)"

fun publicationFilterLoop :: "json list \<Rightarrow> (string \<times> json) list \<Rightarrow> panic + json list" where
  "publicationFilterLoop mustFilters [] = Inr mustFilters"
| "publicationFilterLoop mustFilters ((key, terms) # rest) =
     (case publicationClause key terms of
        Inl p \<Rightarrow> Inl p
      | Inr clause \<Rightarrow> publicationFilterLoop (mustFilters @ [clause]) rest)"

definition publicationMustFilters :: "Query \<Rightarrow> panic + json list" where
  "publicationMustFilters query = publicationFilterLoop [] (filterBucket query ''paper'')"

text \<open>\<^verbatim>\<open>f1\<close>, the \<^verbatim>\<open>post_filter\<close> of the query document.\<close>

definition postFilter :: "json list \<Rightarrow> json" where
  "postFilter mustFilters = JObj [(''bool'', JObj [(''must'', JArr mustFilters)])]"

section \<open>AggregationBuilder\<close>

text \<open>
  What the translators take from outside the program: the environment
  (\<^verbatim>\<open>os.Getenv\<close>), \<^verbatim>\<open>json.Marshal\<close> as the text it produces for a filter clause,
  and \<^verbatim>\<open>strings.ToLower\<close>.
\<close>

record golang =
  Getenv :: "string \<Rightarrow> string"
  Marshal :: "json \<Rightarrow> string"
  ToLower :: "string \<Rightarrow> string"

text \<open>The assignment \<^verbatim>\<open>m[k] = v\<close> on a \<^verbatim>\<open>gin.H\<close>.\<close>

fun assign :: "string \<Rightarrow> json \<Rightarrow> (string \<times> json) list \<Rightarrow> (string \<times> json) list" where
  "assign k v [] = [(k, v)]"
| "assign k v ((k', v') # m) = (if k' = k then (k, v) # m else (k', v') # assign k v m)"

text \<open>
  \<^verbatim>\<open>buildAggregations\<close>: the loop over \<^verbatim>\<open>query.Aggregations\<close>. An entry whose type
  is a non-blank string other than the entity type is skipped; the others add one
  aggregation under their key, filtered by the filter clauses whose text does not
  contain the key.
\<close>

fun aggregationsLoop ::
  "golang \<Rightarrow> overrides \<Rightarrow> json list \<Rightarrow> string \<Rightarrow> (string \<times> json) list
     \<Rightarrow> (string \<times> json) list list \<Rightarrow> (string \<times> json) list" where
  "aggregationsLoop lib ov mustFilters entityTypeNormalized agg1 [] = agg1"
| "aggregationsLoop lib ov mustFilters entityTypeNormalized agg1 (agg # aggs) =
     (let aggType = fst (asString (map_of agg ''type''));
          hasType = (snd (asString (map_of agg ''type'')) \<and> trimSpace aggType \<noteq> [])
      in if hasType \<and> ToLower lib aggType \<noteq> entityTypeNormalized
         then aggregationsLoop lib ov mustFilters entityTypeNormalized agg1 aggs
         else
           (let k = fst (asString (map_of agg ''keys''));
                aggInner =
                  (if k = ''dateRange'' then
                     [(''startDate'', JObj [(''min'', JObj [(''field'', JStr ''startDate'')])]),
                      (''endDate'', JObj [(''max'', JObj [(''field'', JStr ''endDate'')])])]
                   else if k = ''publicationDate'' then
                     [(''startDate'', JObj [(''min'', JObj [(''field'', JStr ''publicationDate'')])]),
                      (''endDate'', JObj [(''max'', JObj [(''field'', JStr ''publicationDate'')])])]
                   else if k = ''populationSize'' then
                     [(k, JObj [(''range'', JObj [(''field'', JStr k),
                                                   (''ranges'', JArr populationRanges)])])]
                   else
                     [(k, JObj [(''terms'', JObj
                         [(''field'', JStr (resolveAggregationField ov k)),
                          (''size'', JStr (Getenv lib ''SEARCH_NO_RECORDS_AGGREGATION''))])])]);
                filters = List.filter (\<lambda>fil. \<not> contains (Marshal lib fil) k) mustFilters
            in aggregationsLoop lib ov mustFilters entityTypeNormalized
                 (assign k (JObj [(''aggs'', JObj aggInner),
                                  (''filter'', JObj [(''bool'', JObj [(''must'', JArr filters)])])])
                    agg1)
                 aggs))"

definition buildAggregations ::
  "golang \<Rightarrow> overrides \<Rightarrow> Query \<Rightarrow> json list \<Rightarrow> string \<Rightarrow> json" where
  "buildAggregations lib ov query mustFilters entityType =
     JObj (aggregationsLoop lib ov mustFilters (ToLower lib entityType) [] (AggregationsOf query))"

section \<open>QueryTranslator: query documents\<close>

text \<open>
  The opening branch that six translators share word for word: without a query string
  a random-score match of everything or, when ids are given, of those ids with a sort
  by their position; with a query string the translator's own text query.
  \<^verbatim>\<open>sortQuery\<close> stays nil, encoded as \<^verbatim>\<open>null\<close>, unless the ids branch sets it.
\<close>

definition matchAllQuery :: json where
  "matchAllQuery =
     JObj [(''function_score'', JObj [(''query'', JObj [(''match_all'', JObj [])]),
                                      (''random_score'', JObj [])])]"

definition idsQuery :: "string list \<Rightarrow> json" where
  "idsQuery ids =
     JObj [(''function_score'', JObj [(''query'',
        JObj [(''function_score'', JObj
           [(''query'', JObj [(''bool'', JObj [(''filter'', JArr
               [JObj [(''terms'', JObj [(''_id'', JArr (map JStr ids))])]])])]),
            (''random_score'', JObj [])])])])]"

definition idsSort :: "string list \<Rightarrow> json" where
  "idsSort ids =
     JArr [JObj [(''_script'', JObj
        [(''type'', JStr ''number''),
         (''script'', JObj [(''lang'', JStr ''painless''),
                            (''source'', JStr ''params.order.indexOf(doc['_id'].value)''),
                            (''params'', JObj [(''order'', JArr (map JStr ids))])]),
         (''order'', JStr ''asc'')])]]"

definition queryHead :: "Query \<Rightarrow> json \<Rightarrow> json \<times> json" where
  "queryHead query textQuery =
     (if QueryString query = [] then
        (if length (IDs query) = 0 then (matchAllQuery, JNull)
         else (idsQuery (IDs query), idsSort (IDs query)))
      else (textQuery, JNull))"

text \<open>The text queries: three \<^verbatim>\<open>multi_match\<close> clauses under \<^verbatim>\<open>bool/should\<close>.\<close>

definition datasetTextQuery :: "string \<Rightarrow> json" where
  "datasetTextQuery queryString =
     (let searchableFields = JArr (map JStr [''abstract'', ''keywords'', ''description'',
            ''shortTitle'', ''title'', ''named_entities'', ''datasetDOI'']);
          mm1 = JObj [(''multi_match'', JObj
                  [(''query'', JStr queryString), (''fields'', searchableFields),
                   (''fuzziness'', JStr ''AUTO:5,7''),
                   (''analyzer'', JStr ''medterms_search_analyzer'')])];
          mm2 = JObj [(''multi_match'', JObj
                  [(''query'', JStr queryString), (''fields'', searchableFields),
                   (''fuzziness'', JStr ''AUTO:5,7''),
                   (''analyzer'', JStr ''medterms_search_analyzer''),
                   (''operator'', JStr ''and''), (''boost'', JNum 2)])];
          mm3 = JObj [(''multi_match'', JObj
                  [(''query'', JStr queryString), (''type'', JStr ''phrase''),
                   (''fields'', searchableFields),
                   (''analyzer'', JStr ''medterms_search_analyzer''), (''boost'', JNum 3)])]
      in JObj [(''bool'', JObj [(''should'', JArr [mm1, mm2, mm3])])])"

text \<open>
  The text query of \<^verbatim>\<open>toolsElasticConfig\<close>, \<^verbatim>\<open>dataUseElasticConfig\<close>,
  \<^verbatim>\<open>publicationElasticConfig\<close> and \<^verbatim>\<open>dataProviderElasticConfig\<close>, which differ in
  their \<^verbatim>\<open>searchableFields\<close> only.
\<close>

definition fieldsTextQuery :: "string list \<Rightarrow> string \<Rightarrow> json" where
  "fieldsTextQuery searchable queryString =
     (let searchableFields = JArr (map JStr searchable);
          mm1 = JObj [(''multi_match'', JObj
                  [(''query'', JStr queryString), (''fields'', searchableFields),
                   (''fuzziness'', JStr ''AUTO:5,7'')])];
          mm2 = JObj [(''multi_match'', JObj
                  [(''query'', JStr queryString), (''fields'', searchableFields),
                   (''fuzziness'', JStr ''AUTO:5,7''), (''operator'', JStr ''and'')])];
          mm3 = JObj [(''multi_match'', JObj
                  [(''query'', JStr queryString), (''fields'', searchableFields),
                   (''type'', JStr ''phrase''), (''boost'', JNum 2)])]
      in JObj [(''bool'', JObj [(''should'', JArr [mm1, mm2, mm3])])])"

text \<open>
  The text query of \<^verbatim>\<open>collectionsElasticConfig\<close> and
  \<^verbatim>\<open>dataCustodianNetworkElasticConfig\<close>, which differ in their
  \<^verbatim>\<open>relatedObjectFields\<close> and \<^verbatim>\<open>searchableFields\<close> only.
\<close>

definition relatedTextQuery :: "string list \<Rightarrow> string list \<Rightarrow> string \<Rightarrow> json" where
  "relatedTextQuery related searchable queryString =
     (let relatedObjectFields = JArr (map JStr related);
          searchableFields = JArr (map JStr searchable);
          mm1 = JObj [(''multi_match'', JObj
                  [(''query'', JStr queryString), (''fields'', relatedObjectFields),
                   (''fuzziness'', JStr ''AUTO:5,7'')])];
          mm2 = JObj [(''multi_match'', JObj
                  [(''query'', JStr queryString), (''fields'', searchableFields),
                   (''fuzziness'', JStr ''AUTO:5,7''), (''boost'', JNum 2)])];
          mm3 = JObj [(''multi_match'', JObj
                  [(''query'', JStr queryString), (''type'', JStr ''phrase''),
                   (''fields'', searchableFields), (''boost'', JNum 3)])]
      in JObj [(''bool'', JObj [(''should'', JArr [mm1, mm2, mm3])])])"

text \<open>The \<^verbatim>\<open>highlight\<close> entry: the same three settings for every named field.\<close>

definition highlightFields :: "string list \<Rightarrow> json" where
  "highlightFields names =
     JObj [(''fields'', JObj (map (\<lambda>name. (name, JObj [(''boundary_scanner'', JStr ''sentence''),
                                                          (''fragment_size'', JNum 0),
                                                          (''no_match_size'', JNum 0)])) names))]"

text \<open>
  The seven translators. Each builds its main query, runs its filter loop, which may
  panic, wraps the clauses in \<^verbatim>\<open>f1\<close>, builds the aggregations and returns the
  document, with \<^verbatim>\<open>sort\<close> added when ids are given.
\<close>

definition datasetElasticConfig :: "golang \<Rightarrow> overrides \<Rightarrow> Query \<Rightarrow> panic + json" where
  "datasetElasticConfig lib ov query =
     (case queryHead query (datasetTextQuery (QueryString query)) of
        (mainQuery, sortQuery) \<Rightarrow>
          (case datasetMustFilters query of
             Inl p \<Rightarrow> Inl p
           | Inr mustFilters \<Rightarrow>
               (let f1 = postFilter mustFilters;
                    agg1 = buildAggregations lib ov query mustFilters ''dataset'';
                    response =
                      [(''size'', JStr (Getenv lib ''SEARCH_NO_RECORDS'')),
                       (''query'', mainQuery),
                       (''highlight'', highlightFields [''description'', ''abstract'']),
                       (''explain'', JBool True),
                       (''post_filter'', f1),
                       (''aggs'', agg1)]
                in Inr (JObj (if length (IDs query) > 0 then assign ''sort'' sortQuery response
                              else response)))))"

definition toolsElasticConfig :: "golang \<Rightarrow> overrides \<Rightarrow> Query \<Rightarrow> panic + json" where
  "toolsElasticConfig lib ov query =
     (case queryHead query
             (fieldsTextQuery [''tags'', ''programmingLanguage'', ''name'', ''link'',
                ''description'', ''resultsInsights'', ''license''] (QueryString query)) of
        (mainQuery, sortQuery) \<Rightarrow>
          (case toolsMustFilters query of
             Inl p \<Rightarrow> Inl p
           | Inr mustFilters \<Rightarrow>
               (let f1 = postFilter mustFilters;
                    agg1 = buildAggregations lib ov query mustFilters ''tool'';
                    response =
                      [(''size'', JStr (Getenv lib ''SEARCH_NO_RECORDS'')),
                       (''query'', mainQuery),
                       (''highlight'', highlightFields [''name'', ''description'']),
                       (''explain'', JBool True),
                       (''post_filter'', f1),
                       (''aggs'', agg1)]
                in Inr (JObj (if length (IDs query) > 0 then assign ''sort'' sortQuery response
                              else response)))))"

definition collectionsElasticConfig :: "golang \<Rightarrow> overrides \<Rightarrow> Query \<Rightarrow> panic + json" where
  "collectionsElasticConfig lib ov query =
     (case queryHead query
             (relatedTextQuery [''datasetTitles'', ''datasetAbstracts'']
                [''description'', ''name'', ''keywords''] (QueryString query)) of
        (mainQuery, sortQuery) \<Rightarrow>
          (case collectionsMustFilters query of
             Inl p \<Rightarrow> Inl p
           | Inr mustFilters \<Rightarrow>
               (let f1 = postFilter mustFilters;
                    agg1 = buildAggregations lib ov query mustFilters ''collection'';
                    response =
                      [(''size'', JStr (Getenv lib ''SEARCH_NO_RECORDS'')),
                       (''query'', mainQuery),
                       (''highlight'', highlightFields [''description'', ''name'', ''keywords'']),
                       (''explain'', JBool True),
                       (''post_filter'', f1),
                       (''aggs'', agg1)]
                in Inr (JObj (if length (IDs query) > 0 then assign ''sort'' sortQuery response
                              else response)))))"

definition dataUseElasticConfig :: "golang \<Rightarrow> overrides \<Rightarrow> Query \<Rightarrow> panic + json" where
  "dataUseElasticConfig lib ov query =
     (case queryHead query
             (fieldsTextQuery [''projectTitle'', ''laySummary'', ''publicBenefitStatement'',
                ''technicalSummary'', ''fundersAndSponsors'', ''datasetTitles'', ''keywords'',
                ''collectionNames'', ''publisherName''] (QueryString query)) of
        (mainQuery, sortQuery) \<Rightarrow>
          (case dataUseMustFilters query of
             Inl p \<Rightarrow> Inl p
           | Inr mustFilters \<Rightarrow>
               (let f1 = postFilter mustFilters;
                    agg1 = buildAggregations lib ov query mustFilters ''datauseregister'';
                    response =
                      [(''size'', JStr (Getenv lib ''SEARCH_NO_RECORDS'')),
                       (''query'', mainQuery),
                       (''highlight'', highlightFields [''laySummary'']),
                       (''explain'', JBool True),
                       (''post_filter'', f1),
                       (''aggs'', agg1)]
                in Inr (JObj (if length (IDs query) > 0 then assign ''sort'' sortQuery response
                              else response)))))"

definition publicationElasticConfig :: "golang \<Rightarrow> overrides \<Rightarrow> Query \<Rightarrow> panic + json" where
  "publicationElasticConfig lib ov query =
     (case queryHead query
             (fieldsTextQuery [''title'', ''journalName'', ''abstract'', ''publicationType'',
                ''authors'', ''datasetTitles'', ''doi''] (QueryString query)) of
        (mainQuery, sortQuery) \<Rightarrow>
          (case publicationMustFilters query of
             Inl p \<Rightarrow> Inl p
           | Inr mustFilters \<Rightarrow>
               (let f1 = postFilter mustFilters;
                    agg1 = buildAggregations lib ov query mustFilters ''publication'';
                    response =
                      [(''size'', JStr (Getenv lib ''SEARCH_NO_RECORDS'')),
                       (''query'', mainQuery),
                       (''highlight'', highlightFields [''title'', ''abstract'']),
                       (''explain'', JBool True),
                       (''post_filter'', f1),
                       (''aggs'', agg1)]
                in Inr (JObj (if length (IDs query) > 0 then assign ''sort'' sortQuery response
                              else response)))))"

definition dataProviderElasticConfig :: "golang \<Rightarrow> overrides \<Rightarrow> Query \<Rightarrow> panic + json" where
  "dataProviderElasticConfig lib ov query =
     (case queryHead query
             (fieldsTextQuery [''name'', ''datasetTitles'', ''geographicLocation'',
                ''publicationTitles'', ''collectionNames'', ''durTitles'', ''toolNames'',
                ''teamAliases''] (QueryString query)) of
        (mainQuery, sortQuery) \<Rightarrow>
          (case dataProviderMustFilters query of
             Inl p \<Rightarrow> Inl p
           | Inr mustFilters \<Rightarrow>
               (let f1 = postFilter mustFilters;
                    agg1 = buildAggregations lib ov query mustFilters ''dataprovider'';
                    response =
                      [(''size'', JStr (Getenv lib ''SEARCH_NO_RECORDS'')),
                       (''query'', mainQuery),
                       (''explain'', JBool True),
                       (''post_filter'', f1),
                       (''aggs'', agg1)]
                in Inr (JObj (if length (IDs query) > 0 then assign ''sort'' sortQuery response
                              else response)))))"

text \<open>
  \<^verbatim>\<open>dataCustodianNetworkElasticConfig\<close> has no ids branch and no \<^verbatim>\<open>sort\<close>.
\<close>

definition dataCustodianNetworkElasticConfig :: "golang \<Rightarrow> overrides \<Rightarrow> Query \<Rightarrow> panic + json" where
  "dataCustodianNetworkElasticConfig lib ov query =
     (let mainQuery =
            (if QueryString query = [] then matchAllQuery
             else relatedTextQuery
                    [''publisherNames'', ''datasetTitles'', ''durTitles'', ''toolNames'',
                     ''publicationTitles'', ''collectionNames'']
                    [''name'', ''summary''] (QueryString query))
      in case dataCustodianNetworkMustFilters query of
           Inl p \<Rightarrow> Inl p
         | Inr mustFilters \<Rightarrow>
             (let f1 = postFilter mustFilters;
                  agg1 = buildAggregations lib ov query mustFilters ''datacustodiannetwork''
              in Inr (JObj [(''size'', JStr (Getenv lib ''SEARCH_NO_RECORDS'')),
                            (''query'', mainQuery),
                            (''highlight'', highlightFields [''name'', ''summary'']),
                            (''explain'', JBool True),
                            (''post_filter'', f1),
                            (''aggs'', agg1)])))"

text \<open>
  The clauses of the specification (section 4.1), each as the relation between the
  value of a filter entry and the clause emitted for it: the OR of one \<^verbatim>\<open>term\<close> match
  per value, the date range of the dataset index, the date range of the publication
  index, and the population range, which with \<^verbatim>\<open>includeUnreported\<close> is ORed with a
  \<^verbatim>\<open>term\<close> match on the sentinel \<open>-1\<close>.
\<close>

definition orOfTerms :: "string \<Rightarrow> json \<Rightarrow> json \<Rightarrow> bool" where
  "orOfTerms key terms clause =
     (case terms of
        JArr ts \<Rightarrow>
          clause = JObj [(''bool'', JObj [(''should'',
                     JArr (map (\<lambda>t. JObj [(''term'', JObj [(key, t)])]) ts))])]
      | _ \<Rightarrow> False)"

definition dateRangeClause :: "json \<Rightarrow> json \<Rightarrow> bool" where
  "dateRangeClause terms clause =
     (case terms of
        JArr (lower # upper # _) \<Rightarrow>
          clause = JObj [(''bool'', JObj [(''must'', JArr
                     [JObj [(''range'', JObj [(''startDate'', JObj [(''lte'', upper)])])],
                      JObj [(''range'', JObj [(''endDate'', JObj [(''gte'', lower)])])]])])]
      | _ \<Rightarrow> False)"

definition publicationDateClause :: "json \<Rightarrow> json \<Rightarrow> bool" where
  "publicationDateClause terms clause =
     (case terms of
        JArr (lower # upper # _) \<Rightarrow>
          clause = JObj [(''bool'', JObj [(''must'', JArr
                     [JObj [(''range'', JObj [(''publicationDate'', JObj [(''gte'', lower)])])],
                      JObj [(''range'', JObj [(''publicationDate'', JObj [(''lte'', upper)])])]])])]
      | _ \<Rightarrow> False)"

definition populationSizeClause :: "json \<Rightarrow> json \<Rightarrow> bool" where
  "populationSizeClause terms clause =
     (case terms of
        JObj m \<Rightarrow>
          (case map_of m ''includeUnreported'' of
             Some (JBool includeUnreported) \<Rightarrow>
               (let rangeQuery = JObj [(''range'', JObj [(''populationSize'',
                                   JObj [(''gte'', mapIndex m ''from''), (''lte'', mapIndex m ''to'')])])]
                in if includeUnreported
                   then clause = JObj [(''bool'', JObj [(''should'', JArr
                                  [rangeQuery, JObj [(''term'', JObj [(''populationSize'', JNum (- 1))])]])])]
                   else clause = JObj [(''bool'', JObj [(''must'', JArr [rangeQuery])])])
           | _ \<Rightarrow> False)
      | _ \<Rightarrow> False)"

text \<open>
  The three shapes of a \<^verbatim>\<open>FilterValue\<close> (section 3 of the specification): a list of
  terms, a date pair and a numeric-range object with a boolean \<^verbatim>\<open>includeUnreported\<close>.
\<close>

definition isTermList :: "json \<Rightarrow> bool" where
  "isTermList terms = (case terms of JArr _ \<Rightarrow> True | _ \<Rightarrow> False)"

definition isDatePair :: "json \<Rightarrow> bool" where
  "isDatePair terms = (case terms of JArr (_ # _ # _) \<Rightarrow> True | _ \<Rightarrow> False)"

definition isNumericRange :: "json \<Rightarrow> bool" where
  "isNumericRange terms =
     (case terms of
        JObj m \<Rightarrow> (case map_of m ''includeUnreported'' of Some (JBool _) \<Rightarrow> True | _ \<Rightarrow> False)
      | _ \<Rightarrow> False)"


text \<open>Two queries used as concrete inputs below.\<close>

definition filteredQuery :: Query where
  "filteredQuery =
     \<lparr>QueryString = ''asthma'',
      Filters =
        [''dataset'' \<mapsto>
           [(''publisherName'', JArr [JStr ''A'', JStr ''B'']),
            (''dateRange'', JArr [JStr ''2010'', JStr ''2020'']),
            (''populationSize'',
               JObj [(''includeUnreported'', JBool True), (''from'', JNum 10), (''to'', JNum 1000)])],
         ''paper'' \<mapsto> [(''publicationDate'', JArr [JStr ''2015'', JStr ''2016''])],
         ''tool'' \<mapsto> [(''dateRange'', JArr [JStr ''2010'', JStr ''2020''])],
         ''collection'' \<mapsto> [(''publisherName'', JArr [JStr ''A''])],
         ''dataUseRegister'' \<mapsto> [(''organisationName'', JArr [JStr ''O'', JStr ''P''])],
         ''dataProvider'' \<mapsto> [(''geographicLocation'', JArr [])],
         ''datacustodiannetwork'' \<mapsto> [(''publisherNames'', JArr [JStr ''A''])]],
      AggregationsOf = [],
      IDs = []\<rparr>"

definition malformedQuery :: Query where
  "malformedQuery =
     \<lparr>QueryString = ''asthma'',
      Filters =
        [''tool'' \<mapsto>
           [(''license'', JStr ''MIT''),
            (''programmingLanguage'', JArr [JStr ''Go''])],
         ''dataset'' \<mapsto>
           [(''publisherName'', JArr [JStr ''A'']),
            (''dateRange'', JArr [JStr ''2010''])]],
      AggregationsOf = [],
      IDs = []\<rparr>"

section \<open>ResponseNormalizer: aggregation flattening\<close>

text \<open>
  \<^verbatim>\<open>flattenAggs\<close>: the loop over \<^verbatim>\<open>elasticResp.Aggregations\<close>, writing into the map
  \<^verbatim>\<open>newAggs\<close>.
\<close>

fun flattenAggsLoop :: "(string \<rightharpoonup> json) \<Rightarrow> (string \<times> json) list \<Rightarrow> (string \<rightharpoonup> json)" where
  "flattenAggsLoop newAggs [] = newAggs"
| "flattenAggsLoop newAggs ((k, agg) # rest) =
     (case agg of
        JObj aggMap \<Rightarrow>
          if k = ''dateRange'' \<or> k = ''publicationDate'' then
            (let newAggs1 = (case map_of aggMap ''startDate'' of
                               Some start \<Rightarrow> newAggs(''startDate'' \<mapsto> start)
                             | None \<Rightarrow> newAggs);
                 newAggs2 = (case map_of aggMap ''endDate'' of
                               Some end' \<Rightarrow> newAggs1(''endDate'' \<mapsto> end')
                             | None \<Rightarrow> newAggs1)
             in flattenAggsLoop newAggs2 rest)
          else
            (case map_of aggMap k of
               Some nested \<Rightarrow> flattenAggsLoop (newAggs(k \<mapsto> nested)) rest
             | None \<Rightarrow> flattenAggsLoop (newAggs(k \<mapsto> JObj aggMap)) rest)
      | _ \<Rightarrow> flattenAggsLoop newAggs rest)"

definition flattenAggs :: "SearchResponse \<Rightarrow> (string \<rightharpoonup> json)" where
  "flattenAggs elasticResp = flattenAggsLoop Map.empty (Aggregations elasticResp)"

text \<open>
  An aggregations map is flat when no key is one of the two date keys and every value
  is an object without an entry under its own key: the shape that the third branch of
  the loop passes through.
\<close>

definition flatAggs :: "(string \<times> json) list \<Rightarrow> bool" where
  "flatAggs aggs =
     list_all (\<lambda>(k, agg). k \<noteq> ''dateRange'' \<and> k \<noteq> ''publicationDate'' \<and>
                 (case agg of JObj aggMap \<Rightarrow> map_of aggMap k = None | _ \<Rightarrow> False)) aggs"

section \<open>FanOutCoordinator\<close>

text \<open>The seven channels of \<^verbatim>\<open>SearchGeneric\<close>, one per search goroutine.\<close>

datatype channel =
    datasetResults
  | toolResults
  | collectionResults
  | dataUseResults
  | publicationResults
  | dataProviderResults
  | dataCustodianNetworkResults

text \<open>The \<^verbatim>\<open>select\<close> statement: the case of the channel that delivers.\<close>

fun selectCase :: "channel \<Rightarrow> SearchResponse \<Rightarrow> (string \<rightharpoonup> SearchResponse) \<Rightarrow> (string \<rightharpoonup> SearchResponse)" where
  "selectCase datasetResults datasets results = results(''dataset'' \<mapsto> datasets)"
| "selectCase toolResults tools results = results(''tool'' \<mapsto> tools)"
| "selectCase collectionResults collections results = results(''collection'' \<mapsto> collections)"
| "selectCase dataUseResults data_uses results = results(''dataUseRegister'' \<mapsto> data_uses)"
| "selectCase publicationResults publications results = results(''publication'' \<mapsto> publications)"
| "selectCase dataProviderResults dataProviders results =
     results(''dataProvider'' \<mapsto> dataProviders)"
| "selectCase dataCustodianNetworkResults dataCustodianNetworks results =
     results(''datacustodiannetwork'' \<mapsto> dataCustodianNetworks)"

text \<open>
  The join loop \<^verbatim>\<open>for i := 0; i < 7; i++ { select ... }\<close>. Each goroutine sends the
  result of its search once, on its own channel; \<open>deliveries\<close> is the sequence in which
  the values arrive, which the scheduler chooses. When nothing more arrives the
  \<^verbatim>\<open>select\<close> blocks for ever and the handler writes no response: \<open>None\<close>.
\<close>

function selectLoop ::
  "nat \<Rightarrow> (channel \<times> SearchResponse) list \<Rightarrow> (string \<rightharpoonup> SearchResponse)
     \<Rightarrow> (string \<rightharpoonup> SearchResponse) option" where
  "selectLoop i deliveries results =
     (if i < 7 then
        (case deliveries of
           [] \<Rightarrow> None
         | (ch, v) # rest \<Rightarrow> selectLoop (i + 1) rest (selectCase ch v results))
      else Some results)"
  by pat_completeness auto
termination
  by (relation "measure (\<lambda>(i, deliveries, results). 7 - i)") auto

declare selectLoop.simps [simp del]

section \<open>The entity searches\<close>











section \<open>FanOutCoordinator: the goroutines\<close>





definition resultKey :: "channel \<Rightarrow> string" where
  "resultKey ch =
     (case ch of
        datasetResults \<Rightarrow> ''dataset''
      | toolResults \<Rightarrow> ''tool''
      | collectionResults \<Rightarrow> ''collection''
      | dataUseResults \<Rightarrow> ''dataUseRegister''
      | publicationResults \<Rightarrow> ''publication''
      | dataProviderResults \<Rightarrow> ''dataProvider''
      | dataCustodianNetworkResults \<Rightarrow> ''datacustodiannetwork'')"

section \<open>What the error recovery reads from a body\<close>

text \<open>
  The known signature of section 4.3 of the specification: a reason that contains
  \<^verbatim>\<open>Text fields are not optimised\<close> or \<^verbatim>\<open>Fielddata is disabled\<close>.
\<close>

definition hasSignature :: "string \<Rightarrow> bool" where
  "hasSignature reason =
     (contains reason ''Text fields are not optimised'' \<or>
      contains reason ''Fielddata is disabled'')"


text \<open>
  The field names a reason yields: the bracketed tokens that, with surrounding white
  space trimmed, are non-empty and free of spaces, each with one trailing
  \<^verbatim>\<open>.keyword\<close> removed. \<open>errorFields\<close> collects them over the root causes of a body
  that carry the signature.
\<close>

definition reasonFields :: "string \<Rightarrow> string list" where
  "reasonFields reason =
     map (\<lambda>field. trimSuffix field ''.keyword'')
       (filter (\<lambda>field. field \<noteq> [] \<and> \<not> contains field '' '')
          (map (\<lambda>match. trimSpace (match ! 1))
             (filter (\<lambda>match. \<not> length match < 2) (findAllStringSubmatch reason))))"

definition causesFields :: "RootCause list \<Rightarrow> string list" where
  "causesFields rootCauses =
     concat (map (\<lambda>cause. if hasSignature (Reason cause) then reasonFields (Reason cause) else [])
               rootCauses)"

definition errorFields :: "(string \<Rightarrow> SearchErrorResponse option) \<Rightarrow> string \<Rightarrow> string list" where
  "errorFields unmarshalError body =
     (if body = [] then []
      else
        (case unmarshalError body of
           None \<Rightarrow> []
         | Some elasticError \<Rightarrow>
             (case Error elasticError ''root_cause'' of
                None \<Rightarrow> []
              | Some rootCauses \<Rightarrow> causesFields rootCauses)))"

text \<open>Registering \<open>field \<rightarrow> field.keyword\<close> unless the field has an entry already.\<close>

definition registerField :: "overrides \<Rightarrow> string \<Rightarrow> overrides" where
  "registerField ov field =
     (if ov field \<noteq> None then ov else ov(field \<mapsto> field @ ''.keyword''))"

section \<open>Counting backend attempts\<close>

text \<open>
  The executor and the filter listing return their result together with the cache and
  the backend; the executor may end in a panic of its query builder instead. The number
  of attempts a call made is the number of requests it added to the backend's log.
\<close>

definition attempts :: "backend \<Rightarrow> backend \<Rightarrow> nat" where
  "attempts before after = length (requests after) - length (requests before)"

definition executorAttempts :: "backend \<Rightarrow> panic + ('a \<times> overrides \<times> backend) \<Rightarrow> nat option" where
  "executorAttempts be outcome =
     (case outcome of Inl p \<Rightarrow> None | Inr (result, ov', be') \<Rightarrow> Some (attempts be be'))"

definition executorResult :: "panic + ('a \<times> overrides \<times> backend) \<Rightarrow> 'a option" where
  "executorResult outcome =
     (case outcome of Inl p \<Rightarrow> None | Inr (result, ov', be') \<Rightarrow> Some result)"

definition executorCache :: "panic + ('a \<times> overrides \<times> backend) \<Rightarrow> overrides option" where
  "executorCache outcome =
     (case outcome of Inl p \<Rightarrow> None | Inr (result, ov', be') \<Rightarrow> Some ov')"


text \<open>
  What one attempt of the executor returns for a query, and the reply the backend gives
  to the next request on an index.
\<close>

definition attemptResult ::
  "(string \<Rightarrow> SearchResponse) \<Rightarrow> backend \<Rightarrow> string \<Rightarrow> json \<Rightarrow> SearchResponse \<times> string" where
  "attemptResult unmarshalResponse be index query =
     fst (executeElasticQuery unmarshalResponse be index query)"




section \<open>Concrete backend replies\<close>

text \<open>
  Bodies used as concrete inputs below, and what \<^verbatim>\<open>json.Unmarshal\<close> makes of them
  for the two target types. Any other body stands for bytes that are not JSON.
\<close>

definition fielddataBody :: string where
  "fielddataBody =
     ''{\"error\":{\"root_cause\":[{\"type\":\"illegal_argument_exception\",\"reason\":\"Fielddata is disabled on text fields by default. Set fielddata=true on [publisherName]\",\"index\":\"dataset\"}]},\"status\":400}''"

definition keywordTokenBody :: string where
  "keywordTokenBody =
     ''{\"error\":{\"root_cause\":[{\"type\":\"illegal_argument_exception\",\"reason\":\"Fielddata is disabled on [.keyword] and [title.keyword.keyword]\",\"index\":\"dataset\"}]},\"status\":400}''"

definition notFoundBody :: string where
  "notFoundBody =
     ''{\"error\":{\"root_cause\":[{\"type\":\"index_not_found_exception\",\"reason\":\"no such index [nope]\",\"index\":\"nope\"}]},\"status\":404}''"

definition hitsBody :: string where
  "hitsBody = ''{\"took\":2,\"timed_out\":false,\"hits\":{\"hits\":[]}}''"

definition aggsBody :: string where
  "aggsBody =
     ''{\"took\":1,\"timed_out\":false,\"hits\":{\"hits\":[]},\"aggregations\":{\"publisherName\":{\"buckets\":[]}}}''"

definition bucketsBody :: string where
  "bucketsBody =
     ''{\"took\":1,\"timed_out\":false,\"hits\":{\"hits\":[]},\"aggregations\":{\"publisherName\":{\"doc_count\":4,\"publisherName\":{\"buckets\":[{\"key\":\"HDR UK\",\"doc_count\":4}]}}}}''"

definition emptyBucketsBody :: string where
  "emptyBucketsBody =
     ''{\"took\":1,\"timed_out\":false,\"hits\":{\"hits\":[]},\"aggregations\":{\"publisherName\":{\"doc_count\":4,\"publisherName\":{\"buckets\":[]}}}}''"

definition exampleUnmarshalError :: "string \<Rightarrow> SearchErrorResponse option" where
  "exampleUnmarshalError body =
     (if body = fielddataBody then
        Some \<lparr>Error = [''root_cause'' \<mapsto>
                 [\<lparr>Type = ''illegal_argument_exception'',
                   Reason = ''Fielddata is disabled on text fields by default. Set fielddata=true on [publisherName]'',
                   Index = ''dataset''\<rparr>]],
              Status = 400\<rparr>
      else if body = keywordTokenBody then
        Some \<lparr>Error = [''root_cause'' \<mapsto>
                 [\<lparr>Type = ''illegal_argument_exception'',
                   Reason = ''Fielddata is disabled on [.keyword] and [title.keyword.keyword]'',
                   Index = ''dataset''\<rparr>]],
              Status = 400\<rparr>
      else if body = notFoundBody then
        Some \<lparr>Error = [''root_cause'' \<mapsto>
                 [\<lparr>Type = ''index_not_found_exception'',
                   Reason = ''no such index [nope]'',
                   Index = ''nope''\<rparr>]],
              Status = 404\<rparr>
      else if body = hitsBody \<or> body = aggsBody \<or> body = bucketsBody \<or> body = emptyBucketsBody
      then Some \<lparr>Error = Map.empty, Status = 0\<rparr>
      else None)"

definition exampleUnmarshalResponse :: "string \<Rightarrow> SearchResponse" where
  "exampleUnmarshalResponse body =
     (if body = hitsBody then
        \<lparr>Took = 2, TimedOut = False, Shards = [],
         HitsOf = \<lparr>Total = [], MaxScore = 0, Hits = Some []\<rparr>, Aggregations = []\<rparr>
      else if body = aggsBody then
        \<lparr>Took = 1, TimedOut = False, Shards = [],
         HitsOf = \<lparr>Total = [], MaxScore = 0, Hits = Some []\<rparr>,
         Aggregations = [(''publisherName'', JObj [(''buckets'', JArr [])])]\<rparr>
      else if body = bucketsBody then
        \<lparr>Took = 1, TimedOut = False, Shards = [],
         HitsOf = \<lparr>Total = [], MaxScore = 0, Hits = Some []\<rparr>,
         Aggregations =
           [(''publisherName'', JObj
               [(''doc_count'', JNum 4),
                (''publisherName'', JObj [(''buckets'', JArr
                    [JObj [(''key'', JStr ''HDR UK''), (''doc_count'', JNum 4)]])])])]\<rparr>
      else if body = emptyBucketsBody then
        \<lparr>Took = 1, TimedOut = False, Shards = [],
         HitsOf = \<lparr>Total = [], MaxScore = 0, Hits = Some []\<rparr>,
         Aggregations =
           [(''publisherName'', JObj
               [(''doc_count'', JNum 4),
                (''publisherName'', JObj [(''buckets'', JArr [])])])]\<rparr>
      else zeroSearchResponse)"

text \<open>
  A query builder that reads the cache, as \<^verbatim>\<open>buildAggregations\<close> does for a terms
  key, and never panics.
\<close>

definition exampleQuery :: "overrides \<Rightarrow> json" where
  "exampleQuery ov =
     JObj [(''aggs'', JObj [(''publisherName'', JObj [(''terms'',
        JObj [(''field'', JStr (resolveAggregationField ov ''publisherName''))])])])]"

definition exampleBuildQuery :: "overrides \<Rightarrow> panic + json" where
  "exampleBuildQuery = (\<lambda>ov. Inr (exampleQuery ov))"

text \<open>
  The library functions for the concrete inputs below. None of those inputs has both
  filters and aggregations, so \<^verbatim>\<open>json.Marshal\<close> is never applied to a clause there.
\<close>

definition exampleLib :: golang where
  "exampleLib = \<lparr>Getenv = (\<lambda>name. ''100''), Marshal = (\<lambda>fil. []), ToLower = toLower\<rparr>"

text \<open>
  A backend that answers the first request on an index with the field-data error and
  the second with aggregations, and a filter-listing pair for \<^verbatim>\<open>publisherName\<close>.
\<close>

definition retryBackend :: backend where
  "retryBackend =
     \<lparr>replies = (\<lambda>index. [\<lambda>query. HttpResponse 400 fielddataBody False,
                            \<lambda>query. HttpResponse 200 aggsBody False]),
      requests = []\<rparr>"






text \<open>
  A cache that already holds the override for \<^verbatim>\<open>publisherName\<close>.
\<close>

definition knownOverride :: overrides where
  "knownOverride = [''publisherName'' \<mapsto> ''publisherName.keyword'']"


definition listingBackend :: backend where
  "listingBackend =
     \<lparr>replies =
        (\<lambda>index.
           if index = ''dataset'' then [\<lambda>query. HttpResponse 200 aggsBody False]
           else if index = ''collection'' then [\<lambda>query. HttpResponse 200 aggsBody False]
           else [\<lambda>query. HttpResponse 404 notFoundBody False]),
      requests = []\<rparr>"

section \<open>Properties\<close>

lemma setAggregationFieldOverride_apply:
  "setAggregationFieldOverride m k v = m(k \<mapsto> v)"
  by (auto simp: setAggregationFieldOverride_def)

lemma populationRangesLoop_unfold:
  "i \<le> 9 \<Longrightarrow>
   populationRangesLoop i ranges =
     ranges @ map (\<lambda>j. JObj [(''from'', JNum (10 ^ j)), (''to'', JNum (10 ^ (j + 1)))]) [i..<9]"
proof (induction i ranges rule: populationRangesLoop.induct)
  case (1 i ranges)
  show ?case
  proof (cases "i < 9")
    case True
    then have "[i..<9] = i # [i + 1..<9]"
      by (simp add: upt_conv_Cons)
    with True "1.IH" show ?thesis
      by (subst populationRangesLoop.simps) simp
  next
    case False
    with "1.prems" have "i = 9" by simp
    then show ?thesis
      by (subst populationRangesLoop.simps) simp
  qed
qed

text \<open>
  C5. \<^verbatim>\<open>populationRanges()\<close> yields exactly ten buckets: the bucket
  \<open>{from: -1, to: 1, key: "Unreported"}\<close> first, then the nine buckets
  \<open>{from: 10^i, to: 10^(i+1)}\<close> for \<open>i = 0..8\<close> in ascending order.
\<close>

theorem populationRanges_buckets:
  "populationRanges =
     JObj [(''from'', JNum (- 1)), (''to'', JNum 1), (''key'', JStr ''Unreported'')]
     # map (\<lambda>i. JObj [(''from'', JNum (10 ^ i)), (''to'', JNum (10 ^ (i + 1)))]) [0..<9]
   \<and> length populationRanges = 10"
  unfolding populationRanges_def
  by (subst populationRangesLoop_unfold, simp)+ simp

text \<open>
  C8. Registering the same mapping \<open>field \<rightarrow> field.keyword\<close> a second time leaves the
  cache as one registration left it: the same map, hence the same key set and the same
  resolved value for every key.
\<close>

theorem setAggregationFieldOverride_idempotent:
  "setAggregationFieldOverride
       (setAggregationFieldOverride m field (field @ ''.keyword'')) field (field @ ''.keyword'')
     = setAggregationFieldOverride m field (field @ ''.keyword'')
   \<and> dom (setAggregationFieldOverride
             (setAggregationFieldOverride m field (field @ ''.keyword'')) field (field @ ''.keyword''))
     = dom (setAggregationFieldOverride m field (field @ ''.keyword''))
   \<and> resolveAggregationField
         (setAggregationFieldOverride
            (setAggregationFieldOverride m field (field @ ''.keyword'')) field (field @ ''.keyword'')) k
     = resolveAggregationField (setAggregationFieldOverride m field (field @ ''.keyword'')) k"
  by (simp add: setAggregationFieldOverride_apply)

subsection \<open>Fan-out join\<close>

lemma selectCase_resultKey: "selectCase ch v results = results(resultKey ch \<mapsto> v)"
  by (cases ch) (simp_all add: resultKey_def)

lemma resultKey_inj: "resultKey a = resultKey b \<Longrightarrow> a = b"
  by (cases a; cases b) (simp_all add: resultKey_def)



lemma selectLoop_blocked:
  "i + length deliveries < 7 \<Longrightarrow> selectLoop i deliveries results = None"
proof (induction deliveries arbitrary: i results)
  case Nil
  then show ?case by (subst selectLoop.simps) simp
next
  case (Cons d ds)
  obtain ch v where d: "d = (ch, v)" by (cases d)
  from Cons.prems have "i < 7" and "(i + 1) + length ds < 7" by simp_all
  with Cons.IH [of "i + 1" "selectCase ch v results"] d show ?case
    by (subst selectLoop.simps) simp
qed

lemma join_fold_lookup:
  "distinct cs \<Longrightarrow>
   foldl (\<lambda>r (ch, v). selectCase ch v r) results (map (\<lambda>ch. (ch, search ch)) cs) k =
     (if k \<in> resultKey ` set cs then Some (search (THE ch. resultKey ch = k)) else results k)"
proof (induction cs arbitrary: results)
  case Nil
  then show ?case by simp
next
  case (Cons c cs)
  have the: "(THE ch. resultKey ch = resultKey c) = c"
    by (rule the_equality) (auto dest: resultKey_inj)
  from Cons.prems have "resultKey c \<notin> resultKey ` set cs"
    by (auto dest: resultKey_inj)
  with Cons show ?case
    by (auto simp: selectCase_resultKey the)
qed



subsection \<open>Aggregation flattening\<close>

lemma flattenAggsLoop_flat:
  "flatAggs aggs \<Longrightarrow> distinct (map fst aggs) \<Longrightarrow>
   flattenAggsLoop newAggs aggs = newAggs ++ map_of aggs"
proof (induction aggs arbitrary: newAggs)
  case Nil
  then show ?case by simp
next
  case (Cons entry rest)
  obtain k agg where entry: "entry = (k, agg)" by (cases entry)
  from Cons.prems(1) entry obtain aggMap where
    agg: "agg = JObj aggMap" and own: "map_of aggMap k = None" and
    k: "k \<noteq> ''dateRange''" "k \<noteq> ''publicationDate''" and rest: "flatAggs rest"
    by (auto simp: flatAggs_def split: json.splits)
  from Cons.prems(2) entry have fresh: "map_of rest k = None" and d: "distinct (map fst rest)"
    by (auto simp: map_of_eq_None_iff)
  have "flattenAggsLoop newAggs (entry # rest) = flattenAggsLoop (newAggs(k \<mapsto> agg)) rest"
    using entry agg own k by simp
  also have "\<dots> = newAggs(k \<mapsto> agg) ++ map_of rest"
    using rest d by (rule Cons.IH)
  also have "\<dots> = newAggs ++ map_of (entry # rest)"
    using fresh entry by (auto simp: map_add_def fun_eq_iff split: option.splits)
  finally show ?case .
qed

text \<open>
  C7, as the code has it. Flattening an aggregations map a second time gives the result
  of the first flattening whenever that result is flat: no key is \<^verbatim>\<open>dateRange\<close> or
  \<^verbatim>\<open>publicationDate\<close> and every value is an object with no entry under its own key.
  \<open>flattened\<close> is the response after \<^verbatim>\<open>elasticResp.Aggregations = newAggs\<close>, its
  entries in any order of iteration.
\<close>

theorem flattenAggs_twice:
  assumes "map_of (Aggregations flattened) = flattenAggs elasticResp"
    and "distinct (map fst (Aggregations flattened))"
    and "flatAggs (Aggregations flattened)"
  shows "flattenAggs flattened = flattenAggs elasticResp"
  using assms by (simp add: flattenAggs_def flattenAggsLoop_flat)

theorem flattenAggs_twice_witness:
  "map_of [(''publisherName'', JObj [(''buckets'', JArr [])]),
           (''startDate'', JObj [(''value'', JNum 5)])]
     = flattenAggs (zeroSearchResponse\<lparr>Aggregations :=
         [(''publisherName'', JObj [(''doc_count'', JNum 3),
                                    (''publisherName'', JObj [(''buckets'', JArr [])])]),
          (''dateRange'', JObj [(''doc_count'', JNum 3),
                                (''startDate'', JObj [(''value'', JNum 5)])])]\<rparr>)
   \<and> distinct (map fst [(''publisherName'', JObj [(''buckets'', JArr [])]),
                         (''startDate'', JObj [(''value'', JNum 5)])])
   \<and> flatAggs [(''publisherName'', JObj [(''buckets'', JArr [])]),
                (''startDate'', JObj [(''value'', JNum 5)])]
   \<and> flattenAggs (zeroSearchResponse\<lparr>Aggregations :=
         [(''publisherName'', JObj [(''buckets'', JArr [])]),
          (''startDate'', JObj [(''value'', JNum 5)])]\<rparr>)
     = flattenAggs (zeroSearchResponse\<lparr>Aggregations :=
         [(''publisherName'', JObj [(''doc_count'', JNum 3),
                                    (''publisherName'', JObj [(''buckets'', JArr [])])]),
          (''dateRange'', JObj [(''doc_count'', JNum 3),
                                (''startDate'', JObj [(''value'', JNum 5)])])]\<rparr>)"
proof -
  have m: "map_of (Aggregations (zeroSearchResponse\<lparr>Aggregations :=
             [(''publisherName'', JObj [(''buckets'', JArr [])]),
              (''startDate'', JObj [(''value'', JNum 5)])]\<rparr>))
     = flattenAggs (zeroSearchResponse\<lparr>Aggregations :=
         [(''publisherName'', JObj [(''doc_count'', JNum 3),
                                    (''publisherName'', JObj [(''buckets'', JArr [])])]),
          (''dateRange'', JObj [(''doc_count'', JNum 3),
                                (''startDate'', JObj [(''value'', JNum 5)])])]\<rparr>)"
    by (auto simp: flattenAggs_def fun_eq_iff)
  have d: "distinct (map fst (Aggregations (zeroSearchResponse\<lparr>Aggregations :=
             [(''publisherName'', JObj [(''buckets'', JArr [])]),
              (''startDate'', JObj [(''value'', JNum 5)])]\<rparr>)))"
    by simp
  have f: "flatAggs (Aggregations (zeroSearchResponse\<lparr>Aggregations :=
             [(''publisherName'', JObj [(''buckets'', JArr [])]),
              (''startDate'', JObj [(''value'', JNum 5)])]\<rparr>))"
    by (simp add: flatAggs_def)
  from flattenAggs_twice [OF m d f] m d f show ?thesis
    by simp
qed

text \<open>
  C7 as stated fails. For an aggregation named \<^verbatim>\<open>buckets\<close> the backend's envelope
  \<^verbatim>\<open>{"buckets": {"doc_count": 3, "buckets": {"buckets": []}}}\<close> flattens to
  \<^verbatim>\<open>{"buckets": {"buckets": []}}\<close>, and flattening that hoists once more, to
  \<^verbatim>\<open>{"buckets": []}\<close>.
\<close>

theorem flattenAggs_not_idempotent:
  "map_of [(''buckets'', JObj [(''buckets'', JArr [])])]
     = flattenAggs (zeroSearchResponse\<lparr>Aggregations :=
         [(''buckets'', JObj [(''doc_count'', JNum 3),
             (''buckets'', JObj [(''buckets'', JArr [])])])]\<rparr>)
   \<and> flattenAggs (zeroSearchResponse\<lparr>Aggregations :=
         [(''buckets'', JObj [(''buckets'', JArr [])])]\<rparr>)
     \<noteq> flattenAggs (zeroSearchResponse\<lparr>Aggregations :=
         [(''buckets'', JObj [(''doc_count'', JNum 3),
             (''buckets'', JObj [(''buckets'', JArr [])])])]\<rparr>)"
proof
  show "map_of [(''buckets'', JObj [(''buckets'', JArr [])])]
     = flattenAggs (zeroSearchResponse\<lparr>Aggregations :=
         [(''buckets'', JObj [(''doc_count'', JNum 3),
             (''buckets'', JObj [(''buckets'', JArr [])])])]\<rparr>)"
    by (simp add: flattenAggs_def)
  have "flattenAggs (zeroSearchResponse\<lparr>Aggregations :=
         [(''buckets'', JObj [(''buckets'', JArr [])])]\<rparr>) ''buckets''
     \<noteq> flattenAggs (zeroSearchResponse\<lparr>Aggregations :=
         [(''buckets'', JObj [(''doc_count'', JNum 3),
             (''buckets'', JObj [(''buckets'', JArr [])])])]\<rparr>) ''buckets''"
    by (simp add: flattenAggs_def)
  then show "flattenAggs (zeroSearchResponse\<lparr>Aggregations :=
         [(''buckets'', JObj [(''buckets'', JArr [])])]\<rparr>)
     \<noteq> flattenAggs (zeroSearchResponse\<lparr>Aggregations :=
         [(''buckets'', JObj [(''doc_count'', JNum 3),
             (''buckets'', JObj [(''buckets'', JArr [])])])]\<rparr>)"
    by metis
qed

subsection \<open>Filter clauses\<close>

lemma termFilters_map:
  "termFilters key filters ts = filters @ map (\<lambda>t. JObj [(''term'', JObj [(key, t)])]) ts"
  by (induction ts arbitrary: filters) simp_all

lemma termsClause_orOfTerms:
  "termsClause key terms = Inr clause \<Longrightarrow> orOfTerms key terms clause"
  by (auto simp: termsClause_def orOfTerms_def termFilters_map split: json.splits)

lemma datasetClause_shape:
  assumes "datasetClause key terms = Inr clause"
  shows "if key = ''dateRange'' then dateRangeClause terms clause
         else if key = ''populationSize'' then populationSizeClause terms clause
         else orOfTerms key terms clause"
proof (cases "key = ''dateRange''")
  case True
  with assms obtain ts where ts: "terms = JArr ts" "\<not> length ts < 2"
    and c: "clause = JObj [(''bool'', JObj [(''must'', JArr
                    [JObj [(''range'', JObj [(''startDate'', JObj [(''lte'', ts ! 1)])])],
                     JObj [(''range'', JObj [(''endDate'', JObj [(''gte'', ts ! 0)])])]])])]"
    by (auto simp: datasetClause_def split: json.splits if_splits)
  from ts(2) obtain lower upper rest where "ts = lower # upper # rest"
    by (cases ts; cases "tl ts") auto
  with True ts c show ?thesis
    by (simp add: dateRangeClause_def)
next
  case False
  show ?thesis
  proof (cases "key = ''populationSize''")
    case True
    with assms show ?thesis
      by (auto simp: datasetClause_def populationSizeClause_def Let_def
               split: json.splits option.splits if_splits)
  next
    case no: False
    with False assms show ?thesis
      by (simp add: datasetClause_def termsClause_orOfTerms)
  qed
qed

lemma publicationClause_shape:
  assumes "publicationClause key terms = Inr clause"
  shows "if key = ''publicationDate'' then publicationDateClause terms clause
         else orOfTerms key terms clause"
proof (cases "key = ''publicationDate''")
  case True
  with assms obtain ts where ts: "terms = JArr ts" "\<not> length ts < 2"
    and c: "clause = JObj [(''bool'', JObj [(''must'', JArr
                    [JObj [(''range'', JObj [(''publicationDate'', JObj [(''gte'', ts ! 0)])])],
                     JObj [(''range'', JObj [(''publicationDate'', JObj [(''lte'', ts ! 1)])])]])])]"
    by (auto simp: publicationClause_def split: json.splits if_splits)
  from ts(2) obtain lower upper rest where "ts = lower # upper # rest"
    by (cases ts; cases "tl ts") auto
  with True ts c show ?thesis
    by (simp add: publicationDateClause_def)
next
  case False
  with assms show ?thesis
    by (simp add: publicationClause_def termsClause_orOfTerms)
qed

lemma termsMustFilters_clauses:
  "termsMustFilters mustFilters bucket = Inr result \<Longrightarrow>
   \<exists>clauses. result = mustFilters @ clauses \<and>
     list_all2 (\<lambda>(key, terms) clause. orOfTerms key terms clause) bucket clauses"
proof (induction bucket arbitrary: mustFilters)
  case Nil
  then show ?case by simp
next
  case (Cons entry rest)
  obtain key terms where entry: "entry = (key, terms)" by (cases entry)
  with Cons.prems obtain clause where
    c: "termsClause key terms = Inr clause" and
    r: "termsMustFilters (mustFilters @ [clause]) rest = Inr result"
    by (auto split: sum.splits)
  from Cons.IH [OF r] obtain clauses where
    "result = (mustFilters @ [clause]) @ clauses"
    "list_all2 (\<lambda>(key, terms) clause. orOfTerms key terms clause) rest clauses"
    by blast
  with entry termsClause_orOfTerms [OF c] show ?case
    by (intro exI [of _ "clause # clauses"]) simp
qed

lemma datasetFilterLoop_clauses:
  "datasetFilterLoop mustFilters bucket = Inr result \<Longrightarrow>
   \<exists>clauses. result = mustFilters @ clauses \<and>
     list_all2 (\<lambda>(key, terms) clause.
        if key = ''dateRange'' then dateRangeClause terms clause
        else if key = ''populationSize'' then populationSizeClause terms clause
        else orOfTerms key terms clause) bucket clauses"
proof (induction bucket arbitrary: mustFilters)
  case Nil
  then show ?case by simp
next
  case (Cons entry rest)
  obtain key terms where entry: "entry = (key, terms)" by (cases entry)
  with Cons.prems obtain clause where
    c: "datasetClause key terms = Inr clause" and
    r: "datasetFilterLoop (mustFilters @ [clause]) rest = Inr result"
    by (auto split: sum.splits)
  from Cons.IH [OF r] obtain clauses where
    "result = (mustFilters @ [clause]) @ clauses"
    "list_all2 (\<lambda>(key, terms) clause.
        if key = ''dateRange'' then dateRangeClause terms clause
        else if key = ''populationSize'' then populationSizeClause terms clause
        else orOfTerms key terms clause) rest clauses"
    by blast
  with entry datasetClause_shape [OF c] show ?case
    by (intro exI [of _ "clause # clauses"]) simp
qed

lemma publicationFilterLoop_clauses:
  "publicationFilterLoop mustFilters bucket = Inr result \<Longrightarrow>
   \<exists>clauses. result = mustFilters @ clauses \<and>
     list_all2 (\<lambda>(key, terms) clause.
        if key = ''publicationDate'' then publicationDateClause terms clause
        else orOfTerms key terms clause) bucket clauses"
proof (induction bucket arbitrary: mustFilters)
  case Nil
  then show ?case by simp
next
  case (Cons entry rest)
  obtain key terms where entry: "entry = (key, terms)" by (cases entry)
  with Cons.prems obtain clause where
    c: "publicationClause key terms = Inr clause" and
    r: "publicationFilterLoop (mustFilters @ [clause]) rest = Inr result"
    by (auto split: sum.splits)
  from Cons.IH [OF r] obtain clauses where
    "result = (mustFilters @ [clause]) @ clauses"
    "list_all2 (\<lambda>(key, terms) clause.
        if key = ''publicationDate'' then publicationDateClause terms clause
        else orOfTerms key terms clause) rest clauses"
    by blast
  with entry publicationClause_shape [OF c] show ?case
    by (intro exI [of _ "clause # clauses"]) simp
qed

lemma termsClause_total: "isTermList terms \<Longrightarrow> \<exists>clause. termsClause key terms = Inr clause"
  by (auto simp: isTermList_def termsClause_def split: json.splits)

lemma datasetClause_total:
  assumes "if key = ''dateRange'' then isDatePair terms
           else if key = ''populationSize'' then isNumericRange terms
           else isTermList terms"
  shows "\<exists>clause. datasetClause key terms = Inr clause"
proof (cases "key = ''dateRange''")
  case True
  with assms show ?thesis
    by (auto simp: isDatePair_def datasetClause_def split: json.splits list.splits)
next
  case False
  show ?thesis
  proof (cases "key = ''populationSize''")
    case True
    with assms show ?thesis
      by (auto simp: isNumericRange_def datasetClause_def Let_def
               split: json.splits option.splits)
  next
    case no: False
    with False assms show ?thesis
      by (simp add: datasetClause_def termsClause_total)
  qed
qed

lemma publicationClause_total:
  assumes "if key = ''publicationDate'' then isDatePair terms else isTermList terms"
  shows "\<exists>clause. publicationClause key terms = Inr clause"
proof (cases "key = ''publicationDate''")
  case True
  with assms show ?thesis
    by (auto simp: isDatePair_def publicationClause_def split: json.splits list.splits)
next
  case False
  with assms show ?thesis
    by (simp add: publicationClause_def termsClause_total)
qed

lemma termsMustFilters_total:
  "list_all (\<lambda>(key, terms). isTermList terms) bucket \<Longrightarrow>
   \<exists>result. termsMustFilters mustFilters bucket = Inr result"
proof (induction bucket arbitrary: mustFilters)
  case Nil
  then show ?case by simp
next
  case (Cons entry rest)
  obtain key terms where entry: "entry = (key, terms)" by (cases entry)
  with Cons.prems have "isTermList terms" by simp
  then obtain clause where "termsClause key terms = Inr clause"
    using termsClause_total by blast
  moreover from Cons.prems
  obtain result where "termsMustFilters (mustFilters @ [clause]) rest = Inr result"
    using Cons.IH by auto
  ultimately show ?case using entry by simp
qed

lemma datasetFilterLoop_total:
  "list_all (\<lambda>(key, terms).
      if key = ''dateRange'' then isDatePair terms
      else if key = ''populationSize'' then isNumericRange terms
      else isTermList terms) bucket \<Longrightarrow>
   \<exists>result. datasetFilterLoop mustFilters bucket = Inr result"
proof (induction bucket arbitrary: mustFilters)
  case Nil
  then show ?case by simp
next
  case (Cons entry rest)
  obtain key terms where entry: "entry = (key, terms)" by (cases entry)
  with Cons.prems have "if key = ''dateRange'' then isDatePair terms
      else if key = ''populationSize'' then isNumericRange terms
      else isTermList terms" by simp
  then obtain clause where "datasetClause key terms = Inr clause"
    using datasetClause_total by blast
  moreover from Cons.prems
  obtain result where "datasetFilterLoop (mustFilters @ [clause]) rest = Inr result"
    using Cons.IH by auto
  ultimately show ?case using entry by simp
qed

lemma publicationFilterLoop_total:
  "list_all (\<lambda>(key, terms).
      if key = ''publicationDate'' then isDatePair terms else isTermList terms) bucket \<Longrightarrow>
   \<exists>result. publicationFilterLoop mustFilters bucket = Inr result"
proof (induction bucket arbitrary: mustFilters)
  case Nil
  then show ?case by simp
next
  case (Cons entry rest)
  obtain key terms where entry: "entry = (key, terms)" by (cases entry)
  with Cons.prems have "if key = ''publicationDate'' then isDatePair terms
      else isTermList terms" by simp
  then obtain clause where "publicationClause key terms = Inr clause"
    using publicationClause_total by blast
  moreover from Cons.prems
  obtain result where "publicationFilterLoop (mustFilters @ [clause]) rest = Inr result"
    using Cons.IH by auto
  ultimately show ?case using entry by simp
qed

lemma termsMustFilters_translates:
  assumes "list_all (\<lambda>(key, terms). isTermList terms) bucket"
  shows "\<exists>mustFilters. termsMustFilters [] bucket = Inr mustFilters \<and>
           list_all2 (\<lambda>(key, terms) clause. orOfTerms key terms clause) bucket mustFilters"
proof -
  from termsMustFilters_total [OF assms] obtain result where
    r: "termsMustFilters [] bucket = Inr result" by blast
  from termsMustFilters_clauses [OF r] r show ?thesis by auto
qed

lemma datasetFilterLoop_translates:
  assumes "list_all (\<lambda>(key, terms).
      if key = ''dateRange'' then isDatePair terms
      else if key = ''populationSize'' then isNumericRange terms
      else isTermList terms) bucket"
  shows "\<exists>mustFilters. datasetFilterLoop [] bucket = Inr mustFilters \<and>
           list_all2 (\<lambda>(key, terms) clause.
              if key = ''dateRange'' then dateRangeClause terms clause
              else if key = ''populationSize'' then populationSizeClause terms clause
              else orOfTerms key terms clause) bucket mustFilters"
proof -
  from datasetFilterLoop_total [OF assms] obtain result where
    r: "datasetFilterLoop [] bucket = Inr result" by blast
  from datasetFilterLoop_clauses [OF r] r show ?thesis by auto
qed

lemma publicationFilterLoop_translates:
  assumes "list_all (\<lambda>(key, terms).
      if key = ''publicationDate'' then isDatePair terms else isTermList terms) bucket"
  shows "\<exists>mustFilters. publicationFilterLoop [] bucket = Inr mustFilters \<and>
           list_all2 (\<lambda>(key, terms) clause.
              if key = ''publicationDate'' then publicationDateClause terms clause
              else orOfTerms key terms clause) bucket mustFilters"
proof -
  from publicationFilterLoop_total [OF assms] obtain result where
    r: "publicationFilterLoop [] bucket = Inr result" by blast
  from publicationFilterLoop_clauses [OF r] r show ?thesis by auto
qed

lemma map_of_assign_other: "k' \<noteq> k \<Longrightarrow> map_of (assign k v m) k' = map_of m k'"
  by (induction m) auto

lemma datasetElasticConfig_post_filter:
  "datasetMustFilters query = Inr mustFilters \<Longrightarrow>
   \<exists>doc. datasetElasticConfig lib ov query = Inr (JObj doc) \<and>
         map_of doc ''post_filter'' = Some (postFilter mustFilters)"
  by (simp add: datasetElasticConfig_def Let_def map_of_assign_other split: prod.splits)

lemma toolsElasticConfig_post_filter:
  "toolsMustFilters query = Inr mustFilters \<Longrightarrow>
   \<exists>doc. toolsElasticConfig lib ov query = Inr (JObj doc) \<and>
         map_of doc ''post_filter'' = Some (postFilter mustFilters)"
  by (simp add: toolsElasticConfig_def Let_def map_of_assign_other split: prod.splits)

lemma collectionsElasticConfig_post_filter:
  "collectionsMustFilters query = Inr mustFilters \<Longrightarrow>
   \<exists>doc. collectionsElasticConfig lib ov query = Inr (JObj doc) \<and>
         map_of doc ''post_filter'' = Some (postFilter mustFilters)"
  by (simp add: collectionsElasticConfig_def Let_def map_of_assign_other split: prod.splits)

lemma dataUseElasticConfig_post_filter:
  "dataUseMustFilters query = Inr mustFilters \<Longrightarrow>
   \<exists>doc. dataUseElasticConfig lib ov query = Inr (JObj doc) \<and>
         map_of doc ''post_filter'' = Some (postFilter mustFilters)"
  by (simp add: dataUseElasticConfig_def Let_def map_of_assign_other split: prod.splits)

lemma publicationElasticConfig_post_filter:
  "publicationMustFilters query = Inr mustFilters \<Longrightarrow>
   \<exists>doc. publicationElasticConfig lib ov query = Inr (JObj doc) \<and>
         map_of doc ''post_filter'' = Some (postFilter mustFilters)"
  by (simp add: publicationElasticConfig_def Let_def map_of_assign_other split: prod.splits)

lemma dataProviderElasticConfig_post_filter:
  "dataProviderMustFilters query = Inr mustFilters \<Longrightarrow>
   \<exists>doc. dataProviderElasticConfig lib ov query = Inr (JObj doc) \<and>
         map_of doc ''post_filter'' = Some (postFilter mustFilters)"
  by (simp add: dataProviderElasticConfig_def Let_def map_of_assign_other split: prod.splits)

lemma dataCustodianNetworkElasticConfig_post_filter:
  "dataCustodianNetworkMustFilters query = Inr mustFilters \<Longrightarrow>
   \<exists>doc. dataCustodianNetworkElasticConfig lib ov query = Inr (JObj doc) \<and>
         map_of doc ''post_filter'' = Some (postFilter mustFilters)"
  by (simp add: dataCustodianNetworkElasticConfig_def Let_def)

text \<open>
  C4, as the code has it. For a bucket whose values have the shapes that the translator
  of its entity type reads, the translator emits one clause per key, in the order of
  the bucket, and the document it returns carries them under \<^verbatim>\<open>post_filter\<close> as one
  \<^verbatim>\<open>bool/must\<close> (AND across keys). A clause is the \<^verbatim>\<open>bool/should\<close> of one \<^verbatim>\<open>term\<close>
  match per value (OR within a key), except for the range keys the translator
  recognises: \<^verbatim>\<open>dateRange\<close> and \<^verbatim>\<open>populationSize\<close> under \<^verbatim>\<open>dataset\<close>, and
  \<^verbatim>\<open>publicationDate\<close> under the publication bucket \<^verbatim>\<open>paper\<close>. \<^verbatim>\<open>populationSize\<close> with
  \<^verbatim>\<open>includeUnreported\<close> true ORs the range with a \<^verbatim>\<open>term\<close> match on \<open>-1\<close>. The five
  other translators recognise no range key: they read every value, whatever its key, as
  a list of terms.
\<close>

theorem filter_clauses_by_entity:
  "(list_all (\<lambda>(key, terms).
        if key = ''dateRange'' then isDatePair terms
        else if key = ''populationSize'' then isNumericRange terms
        else isTermList terms)
      (filterBucket query ''dataset'') \<longrightarrow>
    (\<exists>mustFilters doc.
       datasetMustFilters query = Inr mustFilters \<and>
       list_all2 (\<lambda>(key, terms) clause.
          if key = ''dateRange'' then dateRangeClause terms clause
          else if key = ''populationSize'' then populationSizeClause terms clause
          else orOfTerms key terms clause)
         (filterBucket query ''dataset'') mustFilters \<and>
       datasetElasticConfig lib ov query = Inr (JObj doc) \<and>
       map_of doc ''post_filter'' =
         Some (JObj [(''bool'', JObj [(''must'', JArr mustFilters)])]))) \<and>
   (list_all (\<lambda>(key, terms).
        if key = ''publicationDate'' then isDatePair terms else isTermList terms)
      (filterBucket query ''paper'') \<longrightarrow>
    (\<exists>mustFilters doc.
       publicationMustFilters query = Inr mustFilters \<and>
       list_all2 (\<lambda>(key, terms) clause.
          if key = ''publicationDate'' then publicationDateClause terms clause
          else orOfTerms key terms clause)
         (filterBucket query ''paper'') mustFilters \<and>
       publicationElasticConfig lib ov query = Inr (JObj doc) \<and>
       map_of doc ''post_filter'' =
         Some (JObj [(''bool'', JObj [(''must'', JArr mustFilters)])]))) \<and>
   (list_all (\<lambda>(key, terms). isTermList terms)
      (filterBucket query ''tool'') \<longrightarrow>
    (\<exists>mustFilters doc.
       toolsMustFilters query = Inr mustFilters \<and>
       list_all2 (\<lambda>(key, terms) clause. orOfTerms key terms clause)
         (filterBucket query ''tool'') mustFilters \<and>
       toolsElasticConfig lib ov query = Inr (JObj doc) \<and>
       map_of doc ''post_filter'' =
         Some (JObj [(''bool'', JObj [(''must'', JArr mustFilters)])]))) \<and>
   (list_all (\<lambda>(key, terms). isTermList terms)
      (filterBucket query ''collection'') \<longrightarrow>
    (\<exists>mustFilters doc.
       collectionsMustFilters query = Inr mustFilters \<and>
       list_all2 (\<lambda>(key, terms) clause. orOfTerms key terms clause)
         (filterBucket query ''collection'') mustFilters \<and>
       collectionsElasticConfig lib ov query = Inr (JObj doc) \<and>
       map_of doc ''post_filter'' =
         Some (JObj [(''bool'', JObj [(''must'', JArr mustFilters)])]))) \<and>
   (list_all (\<lambda>(key, terms). isTermList terms)
      (filterBucket query ''dataUseRegister'') \<longrightarrow>
    (\<exists>mustFilters doc.
       dataUseMustFilters query = Inr mustFilters \<and>
       list_all2 (\<lambda>(key, terms) clause. orOfTerms key terms clause)
         (filterBucket query ''dataUseRegister'') mustFilters \<and>
       dataUseElasticConfig lib ov query = Inr (JObj doc) \<and>
       map_of doc ''post_filter'' =
         Some (JObj [(''bool'', JObj [(''must'', JArr mustFilters)])]))) \<and>
   (list_all (\<lambda>(key, terms). isTermList terms)
      (filterBucket query ''dataProvider'') \<longrightarrow>
    (\<exists>mustFilters doc.
       dataProviderMustFilters query = Inr mustFilters \<and>
       list_all2 (\<lambda>(key, terms) clause. orOfTerms key terms clause)
         (filterBucket query ''dataProvider'') mustFilters \<and>
       dataProviderElasticConfig lib ov query = Inr (JObj doc) \<and>
       map_of doc ''post_filter'' =
         Some (JObj [(''bool'', JObj [(''must'', JArr mustFilters)])]))) \<and>
   (list_all (\<lambda>(key, terms). isTermList terms)
      (filterBucket query ''datacustodiannetwork'') \<longrightarrow>
    (\<exists>mustFilters doc.
       dataCustodianNetworkMustFilters query = Inr mustFilters \<and>
       list_all2 (\<lambda>(key, terms) clause. orOfTerms key terms clause)
         (filterBucket query ''datacustodiannetwork'') mustFilters \<and>
       dataCustodianNetworkElasticConfig lib ov query = Inr (JObj doc) \<and>
       map_of doc ''post_filter'' =
         Some (JObj [(''bool'', JObj [(''must'', JArr mustFilters)])])))"
proof (intro conjI impI)
  assume wf: "list_all (\<lambda>(key, terms).
        if key = ''dateRange'' then isDatePair terms
        else if key = ''populationSize'' then isNumericRange terms
        else isTermList terms)
      (filterBucket query ''dataset'')"
  from datasetFilterLoop_translates [OF wf] obtain mustFilters where
    m: "datasetMustFilters query = Inr mustFilters"
    and c: "list_all2 (\<lambda>(key, terms) clause.
          if key = ''dateRange'' then dateRangeClause terms clause
          else if key = ''populationSize'' then populationSizeClause terms clause
          else orOfTerms key terms clause)
         (filterBucket query ''dataset'') mustFilters"
    unfolding datasetMustFilters_def by blast
  from datasetElasticConfig_post_filter [OF m, of lib ov] obtain doc where
    "datasetElasticConfig lib ov query = Inr (JObj doc)"
    "map_of doc ''post_filter'' = Some (JObj [(''bool'', JObj [(''must'', JArr mustFilters)])])"
    unfolding postFilter_def by blast
  with m c show "\<exists>mustFilters doc.
       datasetMustFilters query = Inr mustFilters \<and>
       list_all2 (\<lambda>(key, terms) clause.
          if key = ''dateRange'' then dateRangeClause terms clause
          else if key = ''populationSize'' then populationSizeClause terms clause
          else orOfTerms key terms clause)
         (filterBucket query ''dataset'') mustFilters \<and>
       datasetElasticConfig lib ov query = Inr (JObj doc) \<and>
       map_of doc ''post_filter'' =
         Some (JObj [(''bool'', JObj [(''must'', JArr mustFilters)])])"
    by blast
next
  assume wf: "list_all (\<lambda>(key, terms).
        if key = ''publicationDate'' then isDatePair terms else isTermList terms)
      (filterBucket query ''paper'')"
  from publicationFilterLoop_translates [OF wf] obtain mustFilters where
    m: "publicationMustFilters query = Inr mustFilters"
    and c: "list_all2 (\<lambda>(key, terms) clause.
          if key = ''publicationDate'' then publicationDateClause terms clause
          else orOfTerms key terms clause)
         (filterBucket query ''paper'') mustFilters"
    unfolding publicationMustFilters_def by blast
  from publicationElasticConfig_post_filter [OF m, of lib ov] obtain doc where
    "publicationElasticConfig lib ov query = Inr (JObj doc)"
    "map_of doc ''post_filter'' = Some (JObj [(''bool'', JObj [(''must'', JArr mustFilters)])])"
    unfolding postFilter_def by blast
  with m c show "\<exists>mustFilters doc.
       publicationMustFilters query = Inr mustFilters \<and>
       list_all2 (\<lambda>(key, terms) clause.
          if key = ''publicationDate'' then publicationDateClause terms clause
          else orOfTerms key terms clause)
         (filterBucket query ''paper'') mustFilters \<and>
       publicationElasticConfig lib ov query = Inr (JObj doc) \<and>
       map_of doc ''post_filter'' =
         Some (JObj [(''bool'', JObj [(''must'', JArr mustFilters)])])"
    by blast
next
  assume wf: "list_all (\<lambda>(key, terms). isTermList terms)
      (filterBucket query ''tool'')"
  from termsMustFilters_translates [OF wf] obtain mustFilters where
    m: "toolsMustFilters query = Inr mustFilters"
    and c: "list_all2 (\<lambda>(key, terms) clause. orOfTerms key terms clause)
         (filterBucket query ''tool'') mustFilters"
    unfolding toolsMustFilters_def by blast
  from toolsElasticConfig_post_filter [OF m, of lib ov] obtain doc where
    "toolsElasticConfig lib ov query = Inr (JObj doc)"
    "map_of doc ''post_filter'' = Some (JObj [(''bool'', JObj [(''must'', JArr mustFilters)])])"
    unfolding postFilter_def by blast
  with m c show "\<exists>mustFilters doc.
       toolsMustFilters query = Inr mustFilters \<and>
       list_all2 (\<lambda>(key, terms) clause. orOfTerms key terms clause)
         (filterBucket query ''tool'') mustFilters \<and>
       toolsElasticConfig lib ov query = Inr (JObj doc) \<and>
       map_of doc ''post_filter'' =
         Some (JObj [(''bool'', JObj [(''must'', JArr mustFilters)])])"
    by blast
next
  assume wf: "list_all (\<lambda>(key, terms). isTermList terms)
      (filterBucket query ''collection'')"
  from termsMustFilters_translates [OF wf] obtain mustFilters where
    m: "collectionsMustFilters query = Inr mustFilters"
    and c: "list_all2 (\<lambda>(key, terms) clause. orOfTerms key terms clause)
         (filterBucket query ''collection'') mustFilters"
    unfolding collectionsMustFilters_def by blast
  from collectionsElasticConfig_post_filter [OF m, of lib ov] obtain doc where
    "collectionsElasticConfig lib ov query = Inr (JObj doc)"
    "map_of doc ''post_filter'' = Some (JObj [(''bool'', JObj [(''must'', JArr mustFilters)])])"
    unfolding postFilter_def by blast
  with m c show "\<exists>mustFilters doc.
       collectionsMustFilters query = Inr mustFilters \<and>
       list_all2 (\<lambda>(key, terms) clause. orOfTerms key terms clause)
         (filterBucket query ''collection'') mustFilters \<and>
       collectionsElasticConfig lib ov query = Inr (JObj doc) \<and>
       map_of doc ''post_filter'' =
         Some (JObj [(''bool'', JObj [(''must'', JArr mustFilters)])])"
    by blast
next
  assume wf: "list_all (\<lambda>(key, terms). isTermList terms)
      (filterBucket query ''dataUseRegister'')"
  from termsMustFilters_translates [OF wf] obtain mustFilters where
    m: "dataUseMustFilters query = Inr mustFilters"
    and c: "list_all2 (\<lambda>(key, terms) clause. orOfTerms key terms clause)
         (filterBucket query ''dataUseRegister'') mustFilters"
    unfolding dataUseMustFilters_def by blast
  from dataUseElasticConfig_post_filter [OF m, of lib ov] obtain doc where
    "dataUseElasticConfig lib ov query = Inr (JObj doc)"
    "map_of doc ''post_filter'' = Some (JObj [(''bool'', JObj [(''must'', JArr mustFilters)])])"
    unfolding postFilter_def by blast
  with m c show "\<exists>mustFilters doc.
       dataUseMustFilters query = Inr mustFilters \<and>
       list_all2 (\<lambda>(key, terms) clause. orOfTerms key terms clause)
         (filterBucket query ''dataUseRegister'') mustFilters \<and>
       dataUseElasticConfig lib ov query = Inr (JObj doc) \<and>
       map_of doc ''post_filter'' =
         Some (JObj [(''bool'', JObj [(''must'', JArr mustFilters)])])"
    by blast
next
  assume wf: "list_all (\<lambda>(key, terms). isTermList terms)
      (filterBucket query ''dataProvider'')"
  from termsMustFilters_translates [OF wf] obtain mustFilters where
    m: "dataProviderMustFilters query = Inr mustFilters"
    and c: "list_all2 (\<lambda>(key, terms) clause. orOfTerms key terms clause)
         (filterBucket query ''dataProvider'') mustFilters"
    unfolding dataProviderMustFilters_def by blast
  from dataProviderElasticConfig_post_filter [OF m, of lib ov] obtain doc where
    "dataProviderElasticConfig lib ov query = Inr (JObj doc)"
    "map_of doc ''post_filter'' = Some (JObj [(''bool'', JObj [(''must'', JArr mustFilters)])])"
    unfolding postFilter_def by blast
  with m c show "\<exists>mustFilters doc.
       dataProviderMustFilters query = Inr mustFilters \<and>
       list_all2 (\<lambda>(key, terms) clause. orOfTerms key terms clause)
         (filterBucket query ''dataProvider'') mustFilters \<and>
       dataProviderElasticConfig lib ov query = Inr (JObj doc) \<and>
       map_of doc ''post_filter'' =
         Some (JObj [(''bool'', JObj [(''must'', JArr mustFilters)])])"
    by blast
next
  assume wf: "list_all (\<lambda>(key, terms). isTermList terms)
      (filterBucket query ''datacustodiannetwork'')"
  from termsMustFilters_translates [OF wf] obtain mustFilters where
    m: "dataCustodianNetworkMustFilters query = Inr mustFilters"
    and c: "list_all2 (\<lambda>(key, terms) clause. orOfTerms key terms clause)
         (filterBucket query ''datacustodiannetwork'') mustFilters"
    unfolding dataCustodianNetworkMustFilters_def by blast
  from dataCustodianNetworkElasticConfig_post_filter [OF m, of lib ov] obtain doc where
    "dataCustodianNetworkElasticConfig lib ov query = Inr (JObj doc)"
    "map_of doc ''post_filter'' = Some (JObj [(''bool'', JObj [(''must'', JArr mustFilters)])])"
    unfolding postFilter_def by blast
  with m c show "\<exists>mustFilters doc.
       dataCustodianNetworkMustFilters query = Inr mustFilters \<and>
       list_all2 (\<lambda>(key, terms) clause. orOfTerms key terms clause)
         (filterBucket query ''datacustodiannetwork'') mustFilters \<and>
       dataCustodianNetworkElasticConfig lib ov query = Inr (JObj doc) \<and>
       map_of doc ''post_filter'' =
         Some (JObj [(''bool'', JObj [(''must'', JArr mustFilters)])])"
    by blast
qed

theorem filter_clauses_by_entity_witness:
  "list_all (\<lambda>(key, terms).
        if key = ''dateRange'' then isDatePair terms
        else if key = ''populationSize'' then isNumericRange terms
        else isTermList terms)
      (filterBucket filteredQuery ''dataset'') \<and>
   list_all (\<lambda>(key, terms).
        if key = ''publicationDate'' then isDatePair terms else isTermList terms)
      (filterBucket filteredQuery ''paper'') \<and>
   list_all (\<lambda>(key, terms). isTermList terms)
      (filterBucket filteredQuery ''tool'') \<and>
   list_all (\<lambda>(key, terms). isTermList terms)
      (filterBucket filteredQuery ''collection'') \<and>
   list_all (\<lambda>(key, terms). isTermList terms)
      (filterBucket filteredQuery ''dataUseRegister'') \<and>
   list_all (\<lambda>(key, terms). isTermList terms)
      (filterBucket filteredQuery ''dataProvider'') \<and>
   list_all (\<lambda>(key, terms). isTermList terms)
      (filterBucket filteredQuery ''datacustodiannetwork'') \<and>
   (\<exists>mustFilters doc.
       datasetMustFilters filteredQuery = Inr mustFilters \<and>
       list_all2 (\<lambda>(key, terms) clause.
          if key = ''dateRange'' then dateRangeClause terms clause
          else if key = ''populationSize'' then populationSizeClause terms clause
          else orOfTerms key terms clause)
         (filterBucket filteredQuery ''dataset'') mustFilters \<and>
       datasetElasticConfig exampleLib Map.empty filteredQuery = Inr (JObj doc) \<and>
       map_of doc ''post_filter'' =
         Some (JObj [(''bool'', JObj [(''must'', JArr mustFilters)])])) \<and>
   (\<exists>mustFilters doc.
       publicationMustFilters filteredQuery = Inr mustFilters \<and>
       list_all2 (\<lambda>(key, terms) clause.
          if key = ''publicationDate'' then publicationDateClause terms clause
          else orOfTerms key terms clause)
         (filterBucket filteredQuery ''paper'') mustFilters \<and>
       publicationElasticConfig exampleLib Map.empty filteredQuery = Inr (JObj doc) \<and>
       map_of doc ''post_filter'' =
         Some (JObj [(''bool'', JObj [(''must'', JArr mustFilters)])])) \<and>
   (\<exists>mustFilters doc.
       toolsMustFilters filteredQuery = Inr mustFilters \<and>
       list_all2 (\<lambda>(key, terms) clause. orOfTerms key terms clause)
         (filterBucket filteredQuery ''tool'') mustFilters \<and>
       toolsElasticConfig exampleLib Map.empty filteredQuery = Inr (JObj doc) \<and>
       map_of doc ''post_filter'' =
         Some (JObj [(''bool'', JObj [(''must'', JArr mustFilters)])])) \<and>
   (\<exists>mustFilters doc.
       collectionsMustFilters filteredQuery = Inr mustFilters \<and>
       list_all2 (\<lambda>(key, terms) clause. orOfTerms key terms clause)
         (filterBucket filteredQuery ''collection'') mustFilters \<and>
       collectionsElasticConfig exampleLib Map.empty filteredQuery = Inr (JObj doc) \<and>
       map_of doc ''post_filter'' =
         Some (JObj [(''bool'', JObj [(''must'', JArr mustFilters)])])) \<and>
   (\<exists>mustFilters doc.
       dataUseMustFilters filteredQuery = Inr mustFilters \<and>
       list_all2 (\<lambda>(key, terms) clause. orOfTerms key terms clause)
         (filterBucket filteredQuery ''dataUseRegister'') mustFilters \<and>
       dataUseElasticConfig exampleLib Map.empty filteredQuery = Inr (JObj doc) \<and>
       map_of doc ''post_filter'' =
         Some (JObj [(''bool'', JObj [(''must'', JArr mustFilters)])])) \<and>
   (\<exists>mustFilters doc.
       dataProviderMustFilters filteredQuery = Inr mustFilters \<and>
       list_all2 (\<lambda>(key, terms) clause. orOfTerms key terms clause)
         (filterBucket filteredQuery ''dataProvider'') mustFilters \<and>
       dataProviderElasticConfig exampleLib Map.empty filteredQuery = Inr (JObj doc) \<and>
       map_of doc ''post_filter'' =
         Some (JObj [(''bool'', JObj [(''must'', JArr mustFilters)])])) \<and>
   (\<exists>mustFilters doc.
       dataCustodianNetworkMustFilters filteredQuery = Inr mustFilters \<and>
       list_all2 (\<lambda>(key, terms) clause. orOfTerms key terms clause)
         (filterBucket filteredQuery ''datacustodiannetwork'') mustFilters \<and>
       dataCustodianNetworkElasticConfig exampleLib Map.empty filteredQuery = Inr (JObj doc) \<and>
       map_of doc ''post_filter'' =
         Some (JObj [(''bool'', JObj [(''must'', JArr mustFilters)])]))"
proof -
  have h1: "list_all (\<lambda>(key, terms).
        if key = ''dateRange'' then isDatePair terms
        else if key = ''populationSize'' then isNumericRange terms
        else isTermList terms)
      (filterBucket filteredQuery ''dataset'')"
    by (simp add: filteredQuery_def filterBucket_def isDatePair_def isNumericRange_def
          isTermList_def)
  have h2: "list_all (\<lambda>(key, terms).
        if key = ''publicationDate'' then isDatePair terms else isTermList terms)
      (filterBucket filteredQuery ''paper'')"
    by (simp add: filteredQuery_def filterBucket_def isDatePair_def isNumericRange_def
          isTermList_def)
  have h3: "list_all (\<lambda>(key, terms). isTermList terms)
      (filterBucket filteredQuery ''tool'')"
    by (simp add: filteredQuery_def filterBucket_def isDatePair_def isNumericRange_def
          isTermList_def)
  have h4: "list_all (\<lambda>(key, terms). isTermList terms)
      (filterBucket filteredQuery ''collection'')"
    by (simp add: filteredQuery_def filterBucket_def isDatePair_def isNumericRange_def
          isTermList_def)
  have h5: "list_all (\<lambda>(key, terms). isTermList terms)
      (filterBucket filteredQuery ''dataUseRegister'')"
    by (simp add: filteredQuery_def filterBucket_def isDatePair_def isNumericRange_def
          isTermList_def)
  have h6: "list_all (\<lambda>(key, terms). isTermList terms)
      (filterBucket filteredQuery ''dataProvider'')"
    by (simp add: filteredQuery_def filterBucket_def isDatePair_def isNumericRange_def
          isTermList_def)
  have h7: "list_all (\<lambda>(key, terms). isTermList terms)
      (filterBucket filteredQuery ''datacustodiannetwork'')"
    by (simp add: filteredQuery_def filterBucket_def isDatePair_def isNumericRange_def
          isTermList_def)
  from filter_clauses_by_entity [of filteredQuery exampleLib Map.empty] h1 h2 h3 h4 h5 h6 h7
  show ?thesis
    by (intro conjI) (assumption | blast)+
qed

text \<open>
  C4 as stated fails: under the \<^verbatim>\<open>tool\<close> entity the key \<^verbatim>\<open>dateRange\<close> is not a range
  key. Its two values become two \<^verbatim>\<open>term\<close> matches, not a range clause.
\<close>

theorem tool_dateRange_is_terms:
  "toolsMustFilters filteredQuery =
     Inr [JObj [(''bool'', JObj [(''should'', JArr
            [JObj [(''term'', JObj [(''dateRange'', JStr ''2010'')])],
             JObj [(''term'', JObj [(''dateRange'', JStr ''2020'')])]])])]] \<and>
   \<not> dateRangeClause (JArr [JStr ''2010'', JStr ''2020''])
       (JObj [(''bool'', JObj [(''should'', JArr
            [JObj [(''term'', JObj [(''dateRange'', JStr ''2010'')])],
             JObj [(''term'', JObj [(''dateRange'', JStr ''2020'')])]])])]) \<and>
   \<not> publicationDateClause (JArr [JStr ''2010'', JStr ''2020''])
       (JObj [(''bool'', JObj [(''should'', JArr
            [JObj [(''term'', JObj [(''dateRange'', JStr ''2010'')])],
             JObj [(''term'', JObj [(''dateRange'', JStr ''2020'')])]])])])"
  by (simp add: toolsMustFilters_def filteredQuery_def filterBucket_def termsClause_def
        dateRangeClause_def publicationDateClause_def)

text \<open>
  C2 fails on the code. A filter value that is not a list where the translator asserts a
  list, or a date list with fewer than two elements, makes the translator panic; no
  query document is produced and the well-formed entries of the bucket are lost with it.
\<close>

theorem malformed_filter_panics:
  "toolsMustFilters malformedQuery = Inl InterfaceConversion \<and>
   datasetMustFilters malformedQuery = Inl IndexOutOfRange"
  by (simp add: toolsMustFilters_def datasetMustFilters_def malformedQuery_def filterBucket_def
        termsClause_def datasetClause_def)

subsection \<open>Fan-out: the goroutines and the join\<close>

lemma executeSearchLoop_done:
  "executeSearchLoop unmarshalError unmarshalResponse index buildQuery (Suc (Suc 0)) lastResult st =
     Inr (lastResult, st)"
  by (cases st) (simp add: executeSearchLoop.simps)














subsection \<open>Error recovery and retry\<close>

lemma registerField_new: "ov field = None \<Longrightarrow> registerField ov field = ov(field \<mapsto> field @ ''.keyword'')"
  by (simp add: registerField_def)

lemma registerField_old: "ov field = Some y \<Longrightarrow> registerField ov field = ov"
  by (simp add: registerField_def)

lemma overridesFromMatches_step:
  "overridesFromMatches ov updated (match # matches) =
     (if length match < 2 \<or> trimSpace (match ! 1) = [] \<or> contains (trimSpace (match ! 1)) '' ''
      then overridesFromMatches ov updated matches
      else overridesFromMatches
             (registerField ov (trimSuffix (trimSpace (match ! 1)) ''.keyword'')) True matches)"
  by (simp add: Let_def registerField_def setAggregationFieldOverride_apply)

lemma overridesFromMatches_fields:
  "overridesFromMatches ov updated matches =
     (foldl registerField ov
        (map (\<lambda>field. trimSuffix field ''.keyword'')
           (filter (\<lambda>field. field \<noteq> [] \<and> \<not> contains field '' '')
              (map (\<lambda>match. trimSpace (match ! 1))
                 (filter (\<lambda>match. \<not> length match < 2) matches)))),
      updated \<or>
        map (\<lambda>field. trimSuffix field ''.keyword'')
           (filter (\<lambda>field. field \<noteq> [] \<and> \<not> contains field '' '')
              (map (\<lambda>match. trimSpace (match ! 1))
                 (filter (\<lambda>match. \<not> length match < 2) matches))) \<noteq> [])"
proof (induction matches arbitrary: ov updated)
  case Nil
  then show ?case by simp
next
  case (Cons match matches)
  show ?case
    unfolding overridesFromMatches_step
    by (simp add: Cons.IH del: overridesFromMatches.simps)
qed

lemma overridesFromCauses_fields:
  "overridesFromCauses ov updated rootCauses =
     (foldl registerField ov (causesFields rootCauses),
      updated \<or> causesFields rootCauses \<noteq> [])"
proof (induction rootCauses arbitrary: ov updated)
  case Nil
  then show ?case by (simp add: causesFields_def)
next
  case (Cons cause causes)
  have split: "causesFields (cause # causes) =
      (if hasSignature (Reason cause) then reasonFields (Reason cause) else [])
      @ causesFields causes"
    by (simp add: causesFields_def)
  show ?case
  proof (cases "hasSignature (Reason cause)")
    case True
    then show ?thesis
      unfolding split
      by (simp add: Cons.IH overridesFromMatches_fields reasonFields_def hasSignature_def
            del: overridesFromMatches.simps)
  next
    case False
    then show ?thesis
      unfolding split by (simp add: Cons.IH hasSignature_def)
  qed
qed

lemma updateAggregationOverridesFromError_fields:
  "updateAggregationOverridesFromError unmarshalError ov body =
     (foldl registerField ov (errorFields unmarshalError body),
      errorFields unmarshalError body \<noteq> [])"
  by (auto simp: updateAggregationOverridesFromError_def errorFields_def
        overridesFromCauses_fields causesFields_def split: option.splits)



lemma ElasticClient_Search_requests:
  "requests (snd (ElasticClient_Search be index query)) = requests be @ [(index, query)]"
  by (simp add: ElasticClient_Search_def split: list.splits)

lemma executeElasticQuery_requests:
  "requests (snd (executeElasticQuery unmarshalResponse be index query)) =
     requests be @ [(index, query)]"
  using ElasticClient_Search_requests [of be index query]
  by (auto simp: executeElasticQuery_def split: prod.splits transport.splits)

lemma executeSearchLoop_second:
  "executeSearchLoop unmarshalError unmarshalResponse index (\<lambda>ov. Inr (buildQuery ov)) (Suc 0)
       lastResult (ov1, be1) =
     (case executeElasticQuery unmarshalResponse be1 index (buildQuery ov1) of
        ((resp2, body2), be2) \<Rightarrow>
          Inr ((resp2, body2),
               (if Hits (HitsOf resp2) \<noteq> None \<or> body2 = [] then ov1
                else foldl registerField ov1 (errorFields unmarshalError body2)),
               be2))"
  by (subst executeSearchLoop.simps)
     (auto simp: updateAggregationOverridesFromError_fields executeSearchLoop_done
           split: prod.splits)

lemma executeSearchWithRetry_unfold:
  "executeSearchWithRetry unmarshalError unmarshalResponse index (\<lambda>ov. Inr (buildQuery ov)) (ov, be) =
     (case executeElasticQuery unmarshalResponse be index (buildQuery ov) of
        ((resp1, body1), be1) \<Rightarrow>
          if Hits (HitsOf resp1) \<noteq> None \<or> body1 = [] \<or> errorFields unmarshalError body1 = []
          then Inr ((resp1, body1), ov, be1)
          else
            (case executeElasticQuery unmarshalResponse be1 index
                    (buildQuery (foldl registerField ov (errorFields unmarshalError body1))) of
               ((resp2, body2), be2) \<Rightarrow>
                 Inr ((resp2, body2),
                      (if Hits (HitsOf resp2) \<noteq> None \<or> body2 = []
                       then foldl registerField ov (errorFields unmarshalError body1)
                       else foldl registerField
                              (foldl registerField ov (errorFields unmarshalError body1))
                              (errorFields unmarshalError body2)),
                      be2)))"
  unfolding executeSearchWithRetry_def
  by (subst executeSearchLoop.simps)
     (auto simp: updateAggregationOverridesFromError_fields executeSearchLoop_second
           split: prod.splits)

lemma executorAttempts_retry:
  assumes "attemptResult unmarshalResponse be index (buildQuery ov) = (resp1, body1)"
  shows "executorAttempts be
           (executeSearchWithRetry unmarshalError unmarshalResponse index
              (\<lambda>ov. Inr (buildQuery ov)) (ov, be)) =
         Some (if Hits (HitsOf resp1) = None \<and> body1 \<noteq> [] \<and> errorFields unmarshalError body1 \<noteq> []
               then 2 else 1)"
proof -
  obtain be1 where first:
    "executeElasticQuery unmarshalResponse be index (buildQuery ov) = ((resp1, body1), be1)"
    using assms unfolding attemptResult_def by (metis prod.collapse)
  have r1: "requests be1 = requests be @ [(index, buildQuery ov)]"
    using executeElasticQuery_requests [of unmarshalResponse be index "buildQuery ov"] first
    by simp
  obtain resp2 body2 be2 where second:
    "executeElasticQuery unmarshalResponse be1 index
       (buildQuery (foldl registerField ov (errorFields unmarshalError body1))) =
       ((resp2, body2), be2)"
    by (metis surj_pair)
  have r2: "length (requests be2) = length (requests be) + 2"
    using executeElasticQuery_requests [of unmarshalResponse be1 index
        "buildQuery (foldl registerField ov (errorFields unmarshalError body1))"] second r1
    by simp
  show ?thesis
    unfolding executeSearchWithRetry_unfold
    by (simp add: first second r1 r2 executorAttempts_def attempts_def)
qed

lemma executorResult_first:
  assumes "attemptResult unmarshalResponse be index (buildQuery ov) = (resp1, body1)"
    and "\<not> (Hits (HitsOf resp1) = None \<and> body1 \<noteq> [] \<and> errorFields unmarshalError body1 \<noteq> [])"
  shows "executorResult
           (executeSearchWithRetry unmarshalError unmarshalResponse index
              (\<lambda>ov. Inr (buildQuery ov)) (ov, be)) = Some (resp1, body1)"
proof -
  obtain be1 where first:
    "executeElasticQuery unmarshalResponse be index (buildQuery ov) = ((resp1, body1), be1)"
    using assms(1) unfolding attemptResult_def by (metis prod.collapse)
  from assms(2) show ?thesis
    unfolding executeSearchWithRetry_unfold
    by (auto simp: first executorResult_def)
qed






text \<open>
  C1, as the code has it. The executor makes a second attempt exactly when the first
  returned nil hits and a non-empty body in which the recovery finds a field: a
  bracketed token of a reason with the signature that is non-empty and free of spaces
  once trimmed. Whether the field already has an override plays no part: the recovery
  reports an update as soon as it finds a field, and registers only the fields that
  have no entry yet. When no field is found, or the hits are not nil, or the body is
  empty, the result of the first attempt is final.
\<close>

theorem second_attempt_when_field_found:
  assumes "attemptResult unmarshalResponse be index (buildQuery ov) = (resp1, body1)"
  shows "executorAttempts be
           (executeSearchWithRetry unmarshalError unmarshalResponse index
              (\<lambda>ov. Inr (buildQuery ov)) (ov, be)) =
           Some (if Hits (HitsOf resp1) = None \<and> body1 \<noteq> [] \<and>
                    errorFields unmarshalError body1 \<noteq> []
                 then 2 else 1) \<and>
         (\<not> (Hits (HitsOf resp1) = None \<and> body1 \<noteq> [] \<and>
              errorFields unmarshalError body1 \<noteq> []) \<longrightarrow>
          executorResult
            (executeSearchWithRetry unmarshalError unmarshalResponse index
               (\<lambda>ov. Inr (buildQuery ov)) (ov, be)) = Some (resp1, body1)) \<and>
         updateAggregationOverridesFromError unmarshalError ov body =
           (foldl registerField ov (errorFields unmarshalError body),
            errorFields unmarshalError body \<noteq> [])"
  using executorAttempts_retry [where buildQuery = buildQuery and ov = ov
      and unmarshalError = unmarshalError, OF assms]
    executorResult_first [where buildQuery = buildQuery and ov = ov
      and unmarshalError = unmarshalError, OF assms]
    updateAggregationOverridesFromError_fields [of unmarshalError ov body]
  by blast

theorem second_attempt_when_field_found_witness:
  "attemptResult exampleUnmarshalResponse retryBackend ''dataset'' (exampleQuery knownOverride) =
     (zeroSearchResponse, fielddataBody) \<and>
   executorAttempts retryBackend
     (executeSearchWithRetry exampleUnmarshalError exampleUnmarshalResponse ''dataset''
        (\<lambda>ov. Inr (exampleQuery ov)) (knownOverride, retryBackend)) = Some 2 \<and>
   attemptResult exampleUnmarshalResponse listingBackend ''dataset'' (exampleQuery Map.empty) =
     (exampleUnmarshalResponse aggsBody, aggsBody) \<and>
   \<not> (Hits (HitsOf (exampleUnmarshalResponse aggsBody)) = None \<and> aggsBody \<noteq> [] \<and>
        errorFields exampleUnmarshalError aggsBody \<noteq> []) \<and>
   executorAttempts listingBackend
     (executeSearchWithRetry exampleUnmarshalError exampleUnmarshalResponse ''dataset''
        (\<lambda>ov. Inr (exampleQuery ov)) (Map.empty, listingBackend)) = Some 1 \<and>
   executorResult
     (executeSearchWithRetry exampleUnmarshalError exampleUnmarshalResponse ''dataset''
        (\<lambda>ov. Inr (exampleQuery ov)) (Map.empty, listingBackend)) =
     Some (exampleUnmarshalResponse aggsBody, aggsBody) \<and>
   updateAggregationOverridesFromError exampleUnmarshalError knownOverride fielddataBody =
     (foldl registerField knownOverride (errorFields exampleUnmarshalError fielddataBody),
      errorFields exampleUnmarshalError fielddataBody \<noteq> [])"
proof -
  have h1: "attemptResult exampleUnmarshalResponse retryBackend ''dataset''
              (exampleQuery knownOverride) = (zeroSearchResponse, fielddataBody)"
    by code_simp
  have c1: "Hits (HitsOf zeroSearchResponse) = None \<and> fielddataBody \<noteq> [] \<and>
            errorFields exampleUnmarshalError fielddataBody \<noteq> []"
    by code_simp
  have h2: "attemptResult exampleUnmarshalResponse listingBackend ''dataset''
              (exampleQuery Map.empty) = (exampleUnmarshalResponse aggsBody, aggsBody)"
    by code_simp
  have c2: "\<not> (Hits (HitsOf (exampleUnmarshalResponse aggsBody)) = None \<and> aggsBody \<noteq> [] \<and>
        errorFields exampleUnmarshalError aggsBody \<noteq> [])"
    by code_simp
  from second_attempt_when_field_found [where buildQuery = exampleQuery and ov = knownOverride
      and unmarshalError = exampleUnmarshalError and body = fielddataBody, OF h1] c1
  have first: "executorAttempts retryBackend
     (executeSearchWithRetry exampleUnmarshalError exampleUnmarshalResponse ''dataset''
        (\<lambda>ov. Inr (exampleQuery ov)) (knownOverride, retryBackend)) = Some 2"
    and upd: "updateAggregationOverridesFromError exampleUnmarshalError knownOverride fielddataBody =
     (foldl registerField knownOverride (errorFields exampleUnmarshalError fielddataBody),
      errorFields exampleUnmarshalError fielddataBody \<noteq> [])"
    by simp_all
  from second_attempt_when_field_found [where buildQuery = exampleQuery and ov = Map.empty
      and unmarshalError = exampleUnmarshalError and body = fielddataBody, OF h2] c2
  have second: "executorAttempts listingBackend
     (executeSearchWithRetry exampleUnmarshalError exampleUnmarshalResponse ''dataset''
        (\<lambda>ov. Inr (exampleQuery ov)) (Map.empty, listingBackend)) = Some 1"
    and res: "executorResult
     (executeSearchWithRetry exampleUnmarshalError exampleUnmarshalResponse ''dataset''
        (\<lambda>ov. Inr (exampleQuery ov)) (Map.empty, listingBackend)) =
     Some (exampleUnmarshalResponse aggsBody, aggsBody)"
    by simp_all
  from h1 first h2 c2 second res upd show ?thesis
    by (intro conjI)
qed

text \<open>
  C1 as stated fails. With the override for \<^verbatim>\<open>publisherName\<close> already in the cache, a
  field-data error that names \<^verbatim>\<open>publisherName\<close> teaches nothing new, and yet the
  executor makes a second attempt and returns its result; the cache is as it was.
\<close>

lemma executorCache_retry:
  assumes "executeElasticQuery unmarshalResponse be index (buildQuery ov) = ((resp1, body1), be1)"
    and "Hits (HitsOf resp1) = None" "body1 \<noteq> []" "errorFields unmarshalError body1 \<noteq> []"
    and "attemptResult unmarshalResponse be1 index
           (buildQuery (foldl registerField ov (errorFields unmarshalError body1))) = (resp2, body2)"
    and "Hits (HitsOf resp2) \<noteq> None \<or> body2 = []"
  shows "executorCache
           (executeSearchWithRetry unmarshalError unmarshalResponse index
              (\<lambda>ov. Inr (buildQuery ov)) (ov, be)) =
         Some (foldl registerField ov (errorFields unmarshalError body1))"
proof -
  obtain be2 where second:
    "executeElasticQuery unmarshalResponse be1 index
       (buildQuery (foldl registerField ov (errorFields unmarshalError body1))) =
       ((resp2, body2), be2)"
    using assms(5) unfolding attemptResult_def by (metis prod.collapse)
  from assms(2,3,4,6) show ?thesis
    unfolding executeSearchWithRetry_unfold
    by (auto simp: assms(1) second executorCache_def)
qed

theorem known_override_still_retries:
  "errorFields exampleUnmarshalError fielddataBody = [''publisherName''] \<and>
   knownOverride ''publisherName'' = Some ''publisherName.keyword'' \<and>
   attemptResult exampleUnmarshalResponse retryBackend ''dataset'' (exampleQuery knownOverride) =
     (zeroSearchResponse, fielddataBody) \<and>
   executorAttempts retryBackend
     (executeSearchWithRetry exampleUnmarshalError exampleUnmarshalResponse ''dataset''
        exampleBuildQuery (knownOverride, retryBackend)) = Some 2 \<and>
   executorResult
     (executeSearchWithRetry exampleUnmarshalError exampleUnmarshalResponse ''dataset''
        exampleBuildQuery (knownOverride, retryBackend)) =
     Some (exampleUnmarshalResponse aggsBody, aggsBody) \<and>
   executorCache
     (executeSearchWithRetry exampleUnmarshalError exampleUnmarshalResponse ''dataset''
        exampleBuildQuery (knownOverride, retryBackend)) = Some knownOverride"
proof (intro conjI)
  show f: "errorFields exampleUnmarshalError fielddataBody = [''publisherName'']"
    by code_simp
  show "knownOverride ''publisherName'' = Some ''publisherName.keyword''"
    by code_simp
  show a: "attemptResult exampleUnmarshalResponse retryBackend ''dataset''
             (exampleQuery knownOverride) = (zeroSearchResponse, fielddataBody)"
    by code_simp
  show "executorAttempts retryBackend
     (executeSearchWithRetry exampleUnmarshalError exampleUnmarshalResponse ''dataset''
        exampleBuildQuery (knownOverride, retryBackend)) = Some 2"
    by code_simp
  show "executorResult
     (executeSearchWithRetry exampleUnmarshalError exampleUnmarshalResponse ''dataset''
        exampleBuildQuery (knownOverride, retryBackend)) =
     Some (exampleUnmarshalResponse aggsBody, aggsBody)"
    by code_simp
  obtain be1 where first:
    "executeElasticQuery exampleUnmarshalResponse retryBackend ''dataset''
       (exampleQuery knownOverride) = ((zeroSearchResponse, fielddataBody), be1)"
    using a unfolding attemptResult_def by (metis prod.collapse)
  have be1: "be1 = snd (executeElasticQuery exampleUnmarshalResponse retryBackend ''dataset''
       (exampleQuery knownOverride))"
    using first by simp
  have same: "foldl registerField knownOverride [''publisherName''] = knownOverride"
    by (simp add: registerField_def knownOverride_def)
  have second: "attemptResult exampleUnmarshalResponse be1 ''dataset''
           (exampleQuery (foldl registerField knownOverride
              (errorFields exampleUnmarshalError fielddataBody))) =
         (exampleUnmarshalResponse aggsBody, aggsBody)"
    unfolding be1 f same by code_simp
  have hits: "Hits (HitsOf (exampleUnmarshalResponse aggsBody)) \<noteq> None \<or> aggsBody = []"
    by code_simp
  have nil: "Hits (HitsOf zeroSearchResponse) = None"
    by (simp add: zeroSearchResponse_def)
  have nonempty: "fielddataBody \<noteq> []"
    by (simp add: fielddataBody_def)
  have fields: "errorFields exampleUnmarshalError fielddataBody \<noteq> []"
    unfolding f by simp
  from executorCache_retry [where buildQuery = exampleQuery and ov = knownOverride
      and unmarshalError = exampleUnmarshalError, OF first nil nonempty fields second hits]
  show "executorCache
     (executeSearchWithRetry exampleUnmarshalError exampleUnmarshalResponse ''dataset''
        exampleBuildQuery (knownOverride, retryBackend)) = Some knownOverride"
    unfolding f same exampleBuildQuery_def .
qed

text \<open>
  C10 fails on the code. The recovery tests the token for emptiness before it removes
  the suffix, and removes the suffix once: the token \<^verbatim>\<open>.keyword\<close> is stored under the
  empty key, and the token \<^verbatim>\<open>title.keyword.keyword\<close> under the key
  \<^verbatim>\<open>title.keyword\<close>, which ends in \<^verbatim>\<open>.keyword\<close>.
\<close>

theorem overrides_invariant_broken:
  "fst (updateAggregationOverridesFromError exampleUnmarshalError Map.empty keywordTokenBody) [] =
     Some ''.keyword'' \<and>
   fst (updateAggregationOverridesFromError exampleUnmarshalError Map.empty keywordTokenBody)
     ''title.keyword'' = Some ''title.keyword.keyword'' \<and>
   snd (updateAggregationOverridesFromError exampleUnmarshalError Map.empty keywordTokenBody)"
  by code_simp

subsection \<open>Filter listing\<close>










end
